theory Spec2Isabelle
  imports Main "HOL-Library.Sublist"
begin

text \<open>
  A model of the reconciliation engine of the bundle (\<open>preact\<close> with its hooks): the render
  queue (\<open>enqueueRender\<close>, \<open>process\<close>), \<open>setState\<close>, the setter of a state hook, the error
  walk \<open>_catchError\<close>, the hook cleanups on unmount, the matching of children in
  \<open>diffChildren\<close>, and \<open>diff\<close>. Line numbers refer to the bundle. The definitions come
  first, then concrete worlds for the examples, then the properties.
\<close>

section \<open>Values, objects and thrown errors\<close>

text \<open>
  The engine is JavaScript. Objects are addressed by reference: a component instance by a
  \<open>cid\<close>, a virtual node by a \<open>vid\<close>, a plain object (a state object, a props object) by a
  \<open>ref\<close>, a host node by a \<open>dom\<close>. Numbers are modelled as integers plus \<open>NaN\<close>.
\<close>

type_synonym cid = nat
type_synonym vid = nat
type_synonym ref = nat
type_synonym dom = nat

datatype jsval =
    JUndefined
  | JNull
  | JBool bool
  | JNum int
  | JNaN
  | JStr string
  | JRef nat

text \<open>The operator \<open>===\<close>: equal values of the same kind, except that \<open>NaN\<close> differs from itself.\<close>

fun strict_eq :: "jsval \<Rightarrow> jsval \<Rightarrow> bool" where
  "strict_eq JNaN _ = False"
| "strict_eq _ JNaN = False"
| "strict_eq a b = (a = b)"

type_synonym obj = "string \<rightharpoonup> jsval"

text \<open>
  A field that holds a reference, \<open>null\<close> or \<open>undefined\<close>. The operators \<open>===\<close> and \<open>!==\<close>
  tell the three apart; \<open>== null\<close>, \<open>==\<close> and the test for truth do not tell \<open>null\<close> from
  \<open>undefined\<close>.
\<close>

datatype 'a jsref = Undefined | Null | Ref 'a

definition nullish :: "'a jsref \<Rightarrow> bool" where
  "nullish x = (x = Undefined \<or> x = Null)"

definition loose_eq :: "'a jsref \<Rightarrow> 'a jsref \<Rightarrow> bool" where
  "loose_eq a b = (a = b \<or> (nullish a \<and> nullish b))"

definition referent :: "'a jsref \<Rightarrow> 'a option" where
  "referent x = (case x of Ref r \<Rightarrow> Some r | _ \<Rightarrow> None)"

text \<open>A thrown value: the engine's own \<open>TypeError\<close>, or whatever user code threw.\<close>

datatype exn = TypeError | Raised jsval

section \<open>Component instances, hook cells and the world\<close>

text \<open>
  A hook cell of \<open>__hooks._list\<close>: \<open>_value\<close> (for a state cell, element 0 of the
  \<open>[value, setter]\<close> pair) and \<open>_cleanup\<close> (the number of a user cleanup function, when set).
\<close>

record hookcell =
  hc_value :: jsval
  hc_cleanup :: "nat option"

datatype callback = UserCallback nat | DidMount | DidUpdate

text \<open>
  The fields of a component instance that the engine reads and writes. \<open>c_state\<close> and
  \<open>c_nextState\<close> hold a reference to a state object, \<open>null\<close> or \<open>undefined\<close>;
  \<open>c_vnode\<close> is \<open>_vnode\<close>; \<open>c_hooks\<close> is \<open>__hooks._list\<close> and \<open>c_pendingEffects\<close> the length of
  \<open>__hooks._pendingEffects\<close>, both only meaningful when \<open>c_hooks\<close> is set.
\<close>

record component =
  c_props :: jsval
  c_state :: "ref jsref"
  c_nextState :: "ref jsref"
  c_vnode :: "vid option"
  c_renderCallbacks :: "callback list"
  c_dirty :: bool
  c_force :: bool
  c_pendingError :: bool
  c_processingException :: bool
  c_parentDom :: "dom option"
  c_base :: "dom option"
  c_hooks :: "hookcell list option"
  c_pendingEffects :: nat

datatype vtype = TText | TTag string | TFun nat

text \<open>A key is a string, a number, or absent (\<open>null\<close> and \<open>undefined\<close> alike).\<close>

datatype key = KNone | KNum int | KStr string

text \<open>
  A virtual node as \<open>createVNode\<close> lays it out. \<open>v_ctor\<close> says that the \<open>constructor\<close> field
  is not \<open>undefined\<close>. \<open>v_original\<close> is the identity stamp \<open>_original\<close>: a reference to a
  virtual node, the text itself for a text child, or \<open>null\<close> after a failed diff.
  \<open>v_children\<close> is \<open>_children\<close> once flattened (\<open>None\<close> entries are \<open>null\<close> holes).
\<close>

record vnode =
  v_type :: vtype
  v_props :: jsval
  v_key :: key
  v_ctor :: bool
  v_original :: jsval
  v_children :: "vid option list option"
  v_parent :: "vid option"
  v_depth :: int
  v_dom :: "dom option"
  v_component :: "cid option"

text \<open>
  \<open>createVNode(type, props, key, ref, original)\<close>, for the object allocated at \<open>self\<close>; the
  stamp is the node itself when \<open>original\<close> is \<open>null\<close> or \<open>undefined\<close>. (\<open>options.vnode\<close> is
  not assigned in this bundle.)
\<close>

definition createVNode :: "vid \<Rightarrow> vtype \<Rightarrow> jsval \<Rightarrow> key \<Rightarrow> jsval \<Rightarrow> vnode" where
  "createVNode self ty props k original =
     \<lparr>v_type = ty, v_props = props, v_key = k, v_ctor = False,
      v_original = (if original = JNull \<or> original = JUndefined then JRef self else original),
      v_children = None, v_parent = None, v_depth = 0, v_dom = None, v_component = None\<rparr>"

text \<open>
  The mutable state of the module and of the objects it works on. \<open>debounceRendering\<close> and
  \<open>requestAnimationFrame\<close> are the slots of the \<open>options\<close> object of those names
  (\<open>Ref k\<close> is the installed function number \<open>k\<close>). \<open>scheduled\<close> lists the flushes handed to a
  batching strategy so far, oldest first: \<open>None\<close> is the default \<open>defer\<close>
  (\<open>Promise.prototype.then\<close> or \<open>setTimeout\<close>, which run \<open>process\<close> later, from an
  empty call stack), \<open>Some k\<close> the installed strategy \<open>k\<close>. \<open>paints\<close> lists likewise the
  requests to run \<open>flushAfterPaintEffects\<close>. \<open>user\<close> is whatever state user code keeps.
\<close>

record 'u world =
  comps :: "cid \<Rightarrow> component"
  vnodes :: "vid \<Rightarrow> vnode"
  heap :: "ref \<Rightarrow> obj"
  next_ref :: ref
  rerenderQueue :: "cid list"
  rerenderCount :: nat
  prevDebounce :: "nat jsref"
  debounceRendering :: "nat jsref"
  scheduled :: "nat option list"
  afterPaintEffects :: "cid list"
  prevRaf :: "nat jsref"
  requestAnimationFrame :: "nat jsref"
  paints :: "nat option list"
  user :: 'u

text \<open>User code runs on the world, and returns or throws.\<close>

type_synonym 'u ucode = "'u world \<Rightarrow> 'u world \<times> exn option"

definition upd_comp :: "cid \<Rightarrow> (component \<Rightarrow> component) \<Rightarrow> 'u world \<Rightarrow> 'u world" where
  "upd_comp c f w = w\<lparr>comps := (comps w)(c := f (comps w c))\<rparr>"

definition upd_vnode :: "vid \<Rightarrow> (vnode \<Rightarrow> vnode) \<Rightarrow> 'u world \<Rightarrow> 'u world" where
  "upd_vnode v f w = w\<lparr>vnodes := (vnodes w)(v := f (vnodes w v))\<rparr>"

section \<open>The scheduler\<close>

text \<open>
  \<open>enqueueRender\<close>: the condition is
  \<open>(!c._dirty && (c._dirty = true) && rerenderQueue.push(c) && !rerenderCount++) ||
  prevDebounce !== options.debounceRendering\<close>. The left operand has its effects exactly
  when \<open>c\<close> is not dirty, and is true when \<open>rerenderCount\<close> was zero; the right operand is
  evaluated whenever the left one is false. The flush goes to \<open>prevDebounce || defer\<close>.
\<close>

definition enqueueRender :: "cid \<Rightarrow> 'u world \<Rightarrow> 'u world" where
  "enqueueRender c w =
     (let was_dirty = c_dirty (comps w c);
          w1 = (if was_dirty then w
                else (upd_comp c (\<lambda>x. x\<lparr>c_dirty := True\<rparr>) w)
                       \<lparr>rerenderQueue := rerenderQueue w @ [c],
                        rerenderCount := rerenderCount w + 1\<rparr>)
      in if (\<not> was_dirty \<and> rerenderCount w = 0) \<or> prevDebounce w1 \<noteq> debounceRendering w1
         then w1\<lparr>prevDebounce := debounceRendering w1,
                 scheduled := scheduled w1 @ [referent (debounceRendering w1)]\<rparr>
         else w1)"

text \<open>
  \<open>process\<close>. The comparator of the sort reads \<open>_vnode._depth\<close> of both instances, which
  throws a \<open>TypeError\<close> for an instance without a virtual node (a queue of fewer than two
  entries is never compared). The sort is stable. \<open>renderComponent\<close> runs a diff and with
  it user code; it is a parameter \<open>rc\<close> here: what it does to the world, and whether an
  error escaped it. \<open>run_queue\<close> is \<open>queue.some(c => { if (c._dirty) renderComponent(c) })\<close>;
  it also returns the instances it rendered, in order.
\<close>

definition depth_of :: "'u world \<Rightarrow> cid \<Rightarrow> int option" where
  "depth_of w c = map_option (\<lambda>v. v_depth (vnodes w v)) (c_vnode (comps w c))"

definition depth_key :: "'u world \<Rightarrow> cid \<Rightarrow> int" where
  "depth_key w c = (case depth_of w c of Some d \<Rightarrow> d | None \<Rightarrow> 0)"

definition sort_queue :: "'u world \<Rightarrow> cid list \<Rightarrow> exn + cid list" where
  "sort_queue w q =
     (if 2 \<le> length q \<and> (\<exists>c \<in> set q. depth_of w c = None) then Inl TypeError
      else Inr (sort_key (depth_key w) q))"

fun run_queue :: "(cid \<Rightarrow> 'u ucode) \<Rightarrow> cid list \<Rightarrow> 'u world \<Rightarrow> 'u world \<times> cid list \<times> exn option" where
  "run_queue rc [] w = (w, [], None)"
| "run_queue rc (c # cs) w =
     (if c_dirty (comps w c)
      then (case rc c w of
              (w1, Some e) \<Rightarrow> (w1, [c], Some e)
            | (w1, None) \<Rightarrow> (case run_queue rc cs w1 of (w2, done, r) \<Rightarrow> (w2, c # done, r)))
      else run_queue rc cs w)"

text \<open>One pass of the loop body, entered with a queue that is not empty.\<close>

definition flush_pass :: "(cid \<Rightarrow> 'u ucode) \<Rightarrow> 'u world \<Rightarrow> 'u world \<times> cid list \<times> exn option" where
  "flush_pass rc w =
     (case sort_queue w (rerenderQueue w) of
        Inl e \<Rightarrow> (w, [], Some e)
      | Inr queue \<Rightarrow> run_queue rc queue (w\<lparr>rerenderQueue := []\<rparr>))"


section \<open>\<open>Component.prototype.setState\<close>\<close>

text \<open>
  The value that \<open>setState\<close> merges: \<open>null\<close> or \<open>undefined\<close>; another falsy value
  (\<open>false\<close>, \<open>0\<close>, the empty string, \<open>NaN\<close>); or a truthy value, given by its own
  enumerable properties in the order \<open>for ... in\<close> visits them (an object literal has the
  properties written in it, \<open>true\<close> or a non-zero number has none). The argument of
  \<open>setState\<close> is such a value or a function of the staged state \<open>s\<close> (its properties when
  it is an object) and the props, which returns one or throws.
\<close>

datatype upd = UNullish | UFalsy | UObj "(string \<times> jsval) list"

datatype update = Direct upd | Updater "obj jsref \<Rightarrow> jsval \<Rightarrow> exn + upd"

text \<open>\<open>assign(obj, props)\<close> when \<open>obj\<close> is an object: \<open>for (let i in props) obj[i] = props[i]\<close>.\<close>

fun assign :: "obj \<Rightarrow> (string \<times> jsval) list \<Rightarrow> obj" where
  "assign ob [] = ob"
| "assign ob ((k, v) # kvs) = assign (ob(k \<mapsto> v)) kvs"

text \<open>The object literal \<open>{}\<close> filled by \<open>assign({}, this.state)\<close>: a new object with the
  properties of the state object, or with none when \<open>this.state\<close> is \<open>null\<close> or
  \<open>undefined\<close>.\<close>

definition props_of :: "'u world \<Rightarrow> ref jsref \<Rightarrow> obj" where
  "props_of w st = (case st of Ref r \<Rightarrow> heap w r | _ \<Rightarrow> Map.empty)"

definition clone_state :: "ref jsref \<Rightarrow> 'u world \<Rightarrow> ref \<times> 'u world" where
  "clone_state st w =
     (next_ref w,
      w\<lparr>heap := (heap w)(next_ref w := props_of w st), next_ref := next_ref w + 1\<rparr>)"

text \<open>\<open>assign(s, update)\<close> on the staged state \<open>s\<close>: writing a property of \<open>undefined\<close> or
  \<open>null\<close> throws a \<open>TypeError\<close>; with no property to copy nothing is written.\<close>

definition assign_staged :: "ref jsref \<Rightarrow> (string \<times> jsval) list \<Rightarrow> 'u world \<Rightarrow> exn + 'u world" where
  "assign_staged s kvs w =
     (case s of
        Ref r \<Rightarrow> Inr (w\<lparr>heap := (heap w)(r := assign (heap w r) kvs)\<rparr>)
      | _ \<Rightarrow> (if kvs = [] then Inr w else Inl TypeError))"

definition push_callback :: "cid \<Rightarrow> callback option \<Rightarrow> 'u world \<Rightarrow> 'u world" where
  "push_callback c cb w =
     (case cb of None \<Rightarrow> w
      | Some k \<Rightarrow> upd_comp c (\<lambda>x. x\<lparr>c_renderCallbacks := c_renderCallbacks x @ [k]\<rparr>) w)"

definition setState :: "cid \<Rightarrow> update \<Rightarrow> callback option \<Rightarrow> 'u world \<Rightarrow> 'u world \<times> exn option" where
  "setState c update callback w =
     (let x = comps w c;
          (s, w1) = (if c_nextState x \<noteq> c_state x then (c_nextState x, w)
                     else (case clone_state (c_state x) w of
                             (r, wa) \<Rightarrow> (Ref r, upd_comp c (\<lambda>x. x\<lparr>c_nextState := Ref r\<rparr>) wa)))
      in case (case update of
                 Direct u \<Rightarrow> Inr u
               | Updater f \<Rightarrow> f (map_jsref (heap w1) s) (c_props x)) of
           Inl e \<Rightarrow> (w1, Some e)
         | Inr u \<Rightarrow>
             (case (case u of UObj kvs \<Rightarrow> assign_staged s kvs w1 | _ \<Rightarrow> Inr w1) of
                Inl e \<Rightarrow> (w1, Some e)
              | Inr w2 \<Rightarrow>
                  if u = UNullish then (w2, None)
                  else if c_vnode x = None then (w2, None)
                  else (enqueueRender c (push_callback c callback w2), None)))"

section \<open>The state hook\<close>

text \<open>
  The setter that \<open>useReducer\<close> (and \<open>useState\<close>, whose reducer is \<open>invokeOrReturn\<close>)
  stores in a state cell. The closure holds the cell, which is cell \<open>i\<close> of the hook list of
  its owner \<open>c\<close> (\<open>hookState._component\<close>), and the reducer, which returns the next value or
  throws. (A setter exists only for a cell of the list; the case of no cell is there to
  make the function total.)
\<close>

definition get_cell :: "'u world \<Rightarrow> cid \<Rightarrow> nat \<Rightarrow> hookcell option" where
  "get_cell w c i =
     (case c_hooks (comps w c) of
        None \<Rightarrow> None
      | Some cells \<Rightarrow> (if i < length cells then Some (cells ! i) else None))"

definition set_cell_value :: "cid \<Rightarrow> nat \<Rightarrow> jsval \<Rightarrow> 'u world \<Rightarrow> 'u world" where
  "set_cell_value c i v w =
     upd_comp c (\<lambda>x. x\<lparr>c_hooks := map_option (\<lambda>cells. cells[i := (cells ! i)\<lparr>hc_value := v\<rparr>]) (c_hooks x)\<rparr>) w"

definition dispatch ::
  "(jsval \<Rightarrow> jsval \<Rightarrow> exn + jsval) \<Rightarrow> cid \<Rightarrow> nat \<Rightarrow> jsval \<Rightarrow> 'u world \<Rightarrow> 'u world \<times> exn option" where
  "dispatch reducer c i action w =
     (case get_cell w c i of
        None \<Rightarrow> (w, Some TypeError)
      | Some cell \<Rightarrow>
          (case reducer (hc_value cell) action of
             Inl e \<Rightarrow> (w, Some e)
           | Inr nextValue \<Rightarrow>
               if \<not> strict_eq (hc_value cell) nextValue
               then setState c (Direct (UObj [])) None (set_cell_value c i nextValue w)
               else (w, None)))"

section \<open>Lifecycle methods and error recovery\<close>

text \<open>
  What a component class declares, as far as the engine asks for it. A missing method is
  \<open>None\<close>. The static methods are functions of their arguments; \<open>shouldComponentUpdate\<close>
  reads the world; the others run on it. Context values are left out throughout (of
  \<open>getChildContext\<close> only the call remains).
\<close>

datatype hcall = CallGetDerivedStateFromError cid exn | CallComponentDidCatch cid exn

datatype caught = Handled cid | Rethrown exn

record 'u methods =
  getDerivedStateFromError :: "(exn \<Rightarrow> exn + upd) option"
  componentDidCatch :: "(exn \<Rightarrow> 'u ucode) option"
  getDerivedStateFromProps :: "(jsval \<Rightarrow> obj \<Rightarrow> exn + upd) option"
  componentWillMount :: "'u ucode option"
  componentDidMount :: bool
  componentWillReceiveProps :: "(jsval \<Rightarrow> 'u ucode) option"
  shouldComponentUpdate :: "(jsval \<Rightarrow> 'u world \<Rightarrow> exn + jsval) option"
  componentWillUpdate :: "(jsval \<Rightarrow> 'u ucode) option"
  componentDidUpdate :: bool
  getChildContext :: "'u ucode option"
  getSnapshotBeforeUpdate :: "'u ucode option"

text \<open>
  The body of the \<open>try\<close> of \<open>_catchError\<close> for one ancestor, in two steps. Each returns the
  world, the handler it called (if any), the variable \<open>hasCaught\<close>, and what was thrown.
  \<open>hasCaught\<close> is assigned before the handler is called.
\<close>

definition derive_step ::
  "'u methods \<Rightarrow> cid \<Rightarrow> exn \<Rightarrow> bool \<Rightarrow> 'u world \<Rightarrow> 'u world \<times> hcall list \<times> bool \<times> exn option" where
  "derive_step m c error hasCaught w =
     (case getDerivedStateFromError m of
        None \<Rightarrow> (w, [], hasCaught, None)
      | Some f \<Rightarrow>
          (case f error of
             Inl e \<Rightarrow> (w, [CallGetDerivedStateFromError c error], True, Some e)
           | Inr u \<Rightarrow>
               (case setState c (Direct u) None w of
                  (w1, r) \<Rightarrow> (w1, [CallGetDerivedStateFromError c error], True, r))))"

definition didCatch_step ::
  "'u methods \<Rightarrow> cid \<Rightarrow> exn \<Rightarrow> bool \<Rightarrow> 'u world \<Rightarrow> 'u world \<times> hcall list \<times> bool \<times> exn option" where
  "didCatch_step m c error hasCaught w =
     (case componentDidCatch m of
        None \<Rightarrow> (w, [], hasCaught, None)
      | Some g \<Rightarrow>
          (case g error w of
             (w1, r) \<Rightarrow> (w1, [CallComponentDidCatch c error], True, r)))"

text \<open>
  \<open>_catchError(error, vnode)\<close>. The list is the \<open>_parent\<close> chain of \<open>vnode\<close>, nearest
  ancestor first, each entry the ancestor's \<open>_component\<close>. \<open>hasCaught\<close> is declared outside
  the loop; a call starts with it unset (\<open>False\<close>). The result is the world, the handlers
  called in order, and whether an instance was enqueued or the error thrown to the caller.
\<close>

fun catchError ::
  "(cid \<Rightarrow> 'u methods) \<Rightarrow> exn \<Rightarrow> bool \<Rightarrow> cid option list \<Rightarrow> 'u world
     \<Rightarrow> 'u world \<times> hcall list \<times> caught" where
  "catchError M error hasCaught [] w = (w, [], Rethrown error)"
| "catchError M error hasCaught (None # anc) w = catchError M error hasCaught anc w"
| "catchError M error hasCaught (Some c # anc) w =
     (if c_processingException (comps w c) then catchError M error hasCaught anc w
      else
        (case derive_step (M c) c error hasCaught w of
           (w1, t1, hc1, Some e) \<Rightarrow>
             (case catchError M e hc1 anc w1 of (w', t, r) \<Rightarrow> (w', t1 @ t, r))
         | (w1, t1, hc1, None) \<Rightarrow>
             (case didCatch_step (M c) c error hc1 w1 of
                (w2, t2, hc2, Some e) \<Rightarrow>
                  (case catchError M e hc2 anc w2 of (w', t, r) \<Rightarrow> (w', t1 @ t2 @ t, r))
              | (w2, t2, hc2, None) \<Rightarrow>
                  if hc2
                  then (enqueueRender c (upd_comp c (\<lambda>x. x\<lparr>c_pendingError := True\<rparr>) w2),
                        t1 @ t2, Handled c)
                  else (case catchError M error hc2 anc w2 of
                          (w', t, r) \<Rightarrow> (w', t1 @ t2 @ t, r)))))"

definition no_methods :: "'u methods" where
  "no_methods = \<lparr>getDerivedStateFromError = None, componentDidCatch = None,
     getDerivedStateFromProps = None, componentWillMount = None, componentDidMount = False,
     componentWillReceiveProps = None, shouldComponentUpdate = None,
     componentWillUpdate = None, componentDidUpdate = False, getChildContext = None,
     getSnapshotBeforeUpdate = None\<rparr>"

text \<open>A fresh instance, and a world in which nothing has happened yet.\<close>

definition component0 :: component where
  "component0 = \<lparr>c_props = JUndefined, c_state = Undefined, c_nextState = Undefined,
     c_vnode = None,
     c_renderCallbacks = [], c_dirty = False, c_force = False, c_pendingError = False,
     c_processingException = False, c_parentDom = None, c_base = None, c_hooks = None,
     c_pendingEffects = 0\<rparr>"

definition vnode0 :: vnode where
  "vnode0 = \<lparr>v_type = TText, v_props = JUndefined, v_key = KNone, v_ctor = False,
     v_original = JUndefined, v_children = None, v_parent = None, v_depth = 0, v_dom = None,
     v_component = None\<rparr>"

definition world0 :: "nat world" where
  "world0 = \<lparr>comps = (\<lambda>_. component0), vnodes = (\<lambda>_. vnode0), heap = (\<lambda>_. Map.empty),
     next_ref = 0, rerenderQueue = [], rerenderCount = 0, prevDebounce = Undefined,
     debounceRendering = Undefined, scheduled = [], afterPaintEffects = [],
     prevRaf = Undefined, requestAnimationFrame = Undefined, paints = [], user = 0\<rparr>"

section \<open>Hook cleanups on unmount\<close>

text \<open>
  \<open>hooks._list.forEach(hook => hook._cleanup && hook._cleanup())\<close>, over the cells as they
  are when the loop starts. \<open>CL k\<close> is the user cleanup function number \<open>k\<close>. The result
  lists the cleanups called, in order; a throw ends the \<open>forEach\<close>.
\<close>

fun run_cleanups ::
  "(nat \<Rightarrow> 'u ucode) \<Rightarrow> hookcell list \<Rightarrow> 'u world \<Rightarrow> 'u world \<times> nat list \<times> exn option" where
  "run_cleanups CL [] w = (w, [], None)"
| "run_cleanups CL (h # hs) w =
     (case hc_cleanup h of
        None \<Rightarrow> run_cleanups CL hs w
      | Some k \<Rightarrow>
          (case CL k w of
             (w1, Some e) \<Rightarrow> (w1, [k], Some e)
           | (w1, None) \<Rightarrow> (case run_cleanups CL hs w1 of (w2, ks, r) \<Rightarrow> (w2, k # ks, r))))"

text \<open>
  The \<open>options.unmount\<close> hook that the hooks module installs (\<open>oldBeforeUnmount\<close> is
  \<open>undefined\<close> in this bundle). \<open>anc\<close> is the \<open>_parent\<close> chain of \<open>c._vnode\<close>, as for
  \<open>catchError\<close>. The result: the world, the cleanups called, the error handlers called, and
  what became of an error (\<open>None\<close>: nothing was thrown).
\<close>

definition options_unmount ::
  "(nat \<Rightarrow> 'u ucode) \<Rightarrow> (cid \<Rightarrow> 'u methods) \<Rightarrow> cid option list \<Rightarrow> vid \<Rightarrow> 'u world
     \<Rightarrow> 'u world \<times> nat list \<times> hcall list \<times> caught option" where
  "options_unmount CL M anc v w =
     (case v_component (vnodes w v) of
        None \<Rightarrow> (w, [], [], None)
      | Some c \<Rightarrow>
          (case c_hooks (comps w c) of
             None \<Rightarrow> (w, [], [], None)
           | Some cells \<Rightarrow>
               (case run_cleanups CL cells w of
                  (w1, ks, None) \<Rightarrow> (w1, ks, [], None)
                | (w1, ks, Some e) \<Rightarrow>
                    (case catchError M e False anc w1 of (w2, t, r) \<Rightarrow> (w2, ks, t, Some r)))))"

text \<open>The cleanups registered in a hook list, in registration order.\<close>

definition registered_cleanups :: "hookcell list \<Rightarrow> nat list" where
  "registered_cleanups cells = List.map_filter hc_cleanup cells"

section \<open>Matching new children with old children\<close>

text \<open>
  A value given as children: \<open>null\<close> or \<open>undefined\<close>, a boolean, an array, a string or
  number, or a virtual node. \<open>toChildArray\<close>, called with a callback as \<open>diffChildren\<close>
  calls it, passes to the callback, in order: \<open>null\<close> for a nullish or boolean child
  (\<open>FHole\<close>); a new text node for a string or number (\<open>FText\<close>: type \<open>null\<close>, no key); a
  copy with the same type, props and key for a node that has been rendered before
  (\<open>FClone\<close>: \<open>_dom\<close> or \<open>_component\<close> is set); the node itself otherwise (\<open>FSame\<close>).
\<close>

datatype child = CNullish | CBoolean bool | CArray "child list" | CPrim jsval | CNode vnode

datatype flat = FHole | FText jsval | FClone vnode | FSame vnode

fun toChildArray :: "child \<Rightarrow> flat list" where
  "toChildArray CNullish = [FHole]"
| "toChildArray (CBoolean b) = [FHole]"
| "toChildArray (CArray cs) = concat (map toChildArray cs)"
| "toChildArray (CPrim t) = [FText t]"
| "toChildArray (CNode v) =
     (if v_dom v \<noteq> None \<or> v_component v \<noteq> None then [FClone v] else [FSame v])"

fun flat_type :: "flat \<Rightarrow> vtype" where
  "flat_type (FClone v) = v_type v"
| "flat_type (FSame v) = v_type v"
| "flat_type _ = TText"

fun flat_key :: "flat \<Rightarrow> key" where
  "flat_key (FClone v) = v_key v"
| "flat_key (FSame v) = v_key v"
| "flat_key _ = KNone"

text \<open>
  Keys are compared with \<open>==\<close>: two absent keys are equal, an absent key equals no string
  and no number, and a number equals a string when the string converts to that number.
  The conversion is JavaScript's own; it is the parameter \<open>tonum\<close> (\<open>None\<close>: the string
  converts to no integer).
\<close>

fun key_eq :: "(string \<Rightarrow> int option) \<Rightarrow> key \<Rightarrow> key \<Rightarrow> bool" where
  "key_eq tonum KNone KNone = True"
| "key_eq tonum (KNum a) (KNum b) = (a = b)"
| "key_eq tonum (KStr s) (KStr t) = (s = t)"
| "key_eq tonum (KNum a) (KStr s) = (tonum s = Some a)"
| "key_eq tonum (KStr s) (KNum a) = (tonum s = Some a)"
| "key_eq tonum _ _ = False"

text \<open>
  An entry of \<open>oldChildren\<close>: \<open>null\<close> (a placeholder), \<open>undefined\<close> (consumed already, or
  beyond the end of the array), or an old node.
\<close>

datatype slot = Hole | Taken | Old vnode

definition slot_at :: "slot list \<Rightarrow> nat \<Rightarrow> slot" where
  "slot_at olds i = (if i < length olds then olds ! i else Taken)"

definition old_node :: "slot \<Rightarrow> vnode option" where
  "old_node sl = (case sl of Old ov \<Rightarrow> Some ov | _ \<Rightarrow> None)"

text \<open>\<open>oldVNode && childVNode.key == oldVNode.key && childVNode.type === oldVNode.type\<close>\<close>

definition matches :: "(string \<Rightarrow> int option) \<Rightarrow> flat \<Rightarrow> slot \<Rightarrow> bool" where
  "matches tonum ch sl =
     (case sl of
        Old ov \<Rightarrow> key_eq tonum (flat_key ch) (v_key ov) \<and> flat_type ch = v_type ov
      | _ \<Rightarrow> False)"

text \<open>The loop \<open>for (j = 0; j < oldChildrenLength; j++)\<close>, from \<open>j\<close> on.\<close>

function scan ::
  "(string \<Rightarrow> int option) \<Rightarrow> flat \<Rightarrow> nat \<Rightarrow> slot list \<Rightarrow> vnode option \<times> slot list" where
  "scan tonum ch j olds =
     (if j < length olds
      then (if matches tonum ch (olds ! j) then (old_node (olds ! j), olds[j := Taken])
            else scan tonum ch (j + 1) olds)
      else (None, olds))"
  by pat_completeness auto
termination
  by (relation "measure (\<lambda>(tonum, ch, j, olds). length olds - j)") auto

declare scan.simps [simp del]

text \<open>
  The old node that the callback of \<open>diffChildren\<close> hands to \<open>diff\<close> for the child at index
  \<open>i\<close> (\<open>None\<close>: \<open>EMPTY_OBJ\<close>), and \<open>oldChildren\<close> afterwards.
\<close>

definition match_old ::
  "(string \<Rightarrow> int option) \<Rightarrow> flat \<Rightarrow> nat \<Rightarrow> slot list \<Rightarrow> vnode option \<times> slot list" where
  "match_old tonum ch i olds =
     (if slot_at olds i = Hole \<or> matches tonum ch (slot_at olds i)
      then (old_node (slot_at olds i), olds[i := Taken])
      else scan tonum ch 0 olds)"

text \<open>
  The pass over the new children: the calls of \<open>diff\<close> in order, each with the new child and
  its old node, and \<open>oldChildren\<close> at the end (what is left in it is unmounted). A \<open>null\<close>
  child is skipped and still counts for the index. The calls of \<open>diff\<close> in between are
  taken to return and not to touch this \<open>oldChildren\<close> array.
\<close>

fun walk ::
  "(string \<Rightarrow> int option) \<Rightarrow> nat \<Rightarrow> flat list \<Rightarrow> slot list
     \<Rightarrow> (flat \<times> vnode option) list \<times> slot list" where
  "walk tonum i [] olds = ([], olds)"
| "walk tonum i (FHole # cs) olds = walk tonum (i + 1) cs olds"
| "walk tonum i (ch # cs) olds =
     (case match_old tonum ch i olds of
        (ov, olds1) \<Rightarrow>
          (case walk tonum (i + 1) cs olds1 of (ps, olds2) \<Rightarrow> ((ch, ov) # ps, olds2)))"

text \<open>
  The node that \<open>toChildArray\<close> hands to the callback, and that the callback hands to \<open>diff\<close>
  as the new node: nothing for a hole, the node itself for \<open>FSame\<close>, and for a text and for
  \<open>FClone\<close> the result of \<open>createVNode\<close> (lines 641 and 645 to 651), allocated at \<open>self\<close>.
\<close>

definition callback_node :: "vid \<Rightarrow> flat \<Rightarrow> vnode option" where
  "callback_node self ch =
     (case ch of
        FHole \<Rightarrow> None
      | FText t \<Rightarrow> Some (createVNode self TText t KNone t)
      | FClone v \<Rightarrow> Some (createVNode self (v_type v) (v_props v) (v_key v) (v_original v))
      | FSame v \<Rightarrow> Some v)"

subsection \<open>The matching as the specification words it\<close>

definition same_key_type :: "(string \<Rightarrow> int option) \<Rightarrow> flat \<Rightarrow> vnode \<Rightarrow> bool" where
  "same_key_type tonum ch ov = (key_eq tonum (flat_key ch) (v_key ov) \<and> flat_type ch = v_type ov)"

text \<open>
  The old slot at the same index when it is a placeholder (the child then has no old
  node) or holds a node of the same key and type; otherwise the first old node of the same
  key and type; otherwise none. The slot used is consumed.
\<close>

definition spec_match ::
  "(string \<Rightarrow> int option) \<Rightarrow> flat \<Rightarrow> nat \<Rightarrow> slot list \<Rightarrow> vnode option \<times> slot list" where
  "spec_match tonum ch i olds =
     (if i < length olds \<and> olds ! i = Hole then (None, olds[i := Taken])
      else if i < length olds \<and> (\<exists>ov. olds ! i = Old ov \<and> same_key_type tonum ch ov)
           then (old_node (olds ! i), olds[i := Taken])
      else (case find (\<lambda>j. \<exists>ov. olds ! j = Old ov \<and> same_key_type tonum ch ov) [0..<length olds] of
              Some j \<Rightarrow> (old_node (olds ! j), olds[j := Taken])
            | None \<Rightarrow> (None, olds)))"

fun spec_walk ::
  "(string \<Rightarrow> int option) \<Rightarrow> nat \<Rightarrow> flat list \<Rightarrow> slot list
     \<Rightarrow> (flat \<times> vnode option) list \<times> slot list" where
  "spec_walk tonum i [] olds = ([], olds)"
| "spec_walk tonum i (FHole # cs) olds = spec_walk tonum (i + 1) cs olds"
| "spec_walk tonum i (ch # cs) olds =
     (case spec_match tonum ch i olds of
        (ov, olds1) \<Rightarrow>
          (case spec_walk tonum (i + 1) cs olds1 of (ps, olds2) \<Rightarrow> ((ch, ov) # ps, olds2)))"

section \<open>\<open>diff\<close>\<close>

text \<open>
  Calls of the host tree are recorded as they are issued. \<open>diff\<close> issues none itself: they
  come from \<open>diffElementNodes\<close> and \<open>diffChildren\<close>, which stand here as parameters, each a
  function of the world that returns the world, the host calls it issued, the
  \<open>commitQueue\<close>, and its result or the error that escaped it. The model of \<open>diff\<close> keeps
  a trace of what it invoked.
\<close>

datatype hostop =
    CreateElement string
  | CreateTextNode jsval
  | SetProperty dom string
  | SetData dom jsval
  | AppendChild dom
  | InsertBefore dom
  | RemoveChild dom

datatype event =
    EvDiffHook vid
  | EvConstruct vid
  | EvGetDerivedStateFromProps cid
  | EvWillMount cid
  | EvWillReceiveProps cid
  | EvShouldUpdate cid
  | EvWillUpdate cid
  | EvRenderHook cid
  | EvRender cid
  | EvChildContext cid
  | EvSnapshot cid
  | EvDiffChildren vid
  | EvDiffElementNodes vid
  | EvCatchError vid

record 'u dstate =
  d_world :: "'u world"
  d_events :: "event list"
  d_hostops :: "hostop list"
  d_commit :: "cid list"

text \<open>
  What \<open>diff\<close> calls besides itself. \<open>opt_diff\<close> is the slot \<open>options._diff\<close>, which nothing
  in this bundle assigns; \<open>methods_of c\<close> are the methods of instance \<open>c\<close> and of its class;
  \<open>construct\<close> is \<open>new newType(props, context)\<close> (or \<open>new Component\<close> for a function
  component), which puts a new instance into the world; \<open>pending_effects c\<close> runs the
  pending effects of \<open>c\<close> with their cleanups; \<open>render c\<close> is \<open>c.render\<close> followed by the
  normalisation of its result into a value for \<open>_children\<close>. The arguments that \<open>diff\<close>
  only hands on to \<open>diffChildren\<close> and \<open>diffElementNodes\<close> (\<open>globalContext\<close>, \<open>isSvg\<close>,
  \<open>oldDom\<close>, \<open>isHydrating\<close>) are part of these two parameters.
\<close>

record 'u procs =
  opt_diff :: "(vid \<Rightarrow> 'u ucode) option"
  methods_of :: "cid \<Rightarrow> 'u methods"
  construct :: "vid \<Rightarrow> 'u world \<Rightarrow> 'u world \<times> (exn + cid)"
  pending_effects :: "cid \<Rightarrow> 'u ucode"
  render :: "cid \<Rightarrow> 'u world \<Rightarrow> 'u world \<times> (exn + child)"
  diffChildren_proc ::
    "dom option \<Rightarrow> vid \<Rightarrow> vid option \<Rightarrow> child \<Rightarrow> dom option list option \<Rightarrow> cid list
       \<Rightarrow> 'u world \<Rightarrow> 'u world \<times> hostop list \<times> cid list \<times> exn option"
  diffElementNodes_proc ::
    "vid \<Rightarrow> vid option \<Rightarrow> dom option list option \<Rightarrow> cid list
       \<Rightarrow> 'u world \<Rightarrow> 'u world \<times> hostop list \<times> cid list \<times> (exn + dom)"

text \<open>The old node is \<open>None\<close> when it is \<open>EMPTY_OBJ\<close>, all of whose fields are \<open>undefined\<close>.\<close>

definition old_component :: "'u world \<Rightarrow> vid option \<Rightarrow> cid option" where
  "old_component w ov = (case ov of None \<Rightarrow> None | Some v \<Rightarrow> v_component (vnodes w v))"

definition old_dom :: "'u world \<Rightarrow> vid option \<Rightarrow> dom option" where
  "old_dom w ov = (case ov of None \<Rightarrow> None | Some v \<Rightarrow> v_dom (vnodes w v))"

definition old_children :: "'u world \<Rightarrow> vid option \<Rightarrow> vid option list option" where
  "old_children w ov = (case ov of None \<Rightarrow> None | Some v \<Rightarrow> v_children (vnodes w v))"

definition old_original :: "'u world \<Rightarrow> vid option \<Rightarrow> jsval" where
  "old_original w ov = (case ov of None \<Rightarrow> JUndefined | Some v \<Rightarrow> v_original (vnodes w v))"

definition same_stamp :: "'u world \<Rightarrow> vid \<Rightarrow> vid option \<Rightarrow> bool" where
  "same_stamp w nv ov = strict_eq (v_original (vnodes w nv)) (old_original w ov)"

text \<open>Sequencing: the second step runs when the first one did not throw.\<close>

definition seq ::
  "('s \<Rightarrow> 's \<times> exn option) \<Rightarrow> ('s \<Rightarrow> 's \<times> exn option) \<Rightarrow> 's \<Rightarrow> 's \<times> exn option" where
  "seq f g s = (case f s of (s1, Some e) \<Rightarrow> (s1, Some e) | (s1, None) \<Rightarrow> g s1)"

definition on_world :: "('u world \<Rightarrow> 'u world) \<Rightarrow> 'u dstate \<Rightarrow> 'u dstate \<times> exn option" where
  "on_world f s = (s\<lparr>d_world := f (d_world s)\<rparr>, None)"

definition run_user :: "event \<Rightarrow> 'u ucode \<Rightarrow> 'u dstate \<Rightarrow> 'u dstate \<times> exn option" where
  "run_user ev f s =
     (case f (d_world s) of (w1, r) \<Rightarrow> (s\<lparr>d_world := w1, d_events := d_events s @ [ev]\<rparr>, r))"

definition skip :: "'s \<Rightarrow> 's \<times> exn option" where
  "skip s = (s, None)"

text \<open>
  Lines 872 to 892: the instance of the old node is taken over, with
  \<open>clearProcessingException = c._processingException = c._pendingError\<close>, or a new
  instance is made. The result is the instance, \<open>isNew\<close> and \<open>clearProcessingException\<close>.
\<close>

definition resolve_instance ::
  "'u procs \<Rightarrow> vid \<Rightarrow> vid option \<Rightarrow> jsval \<Rightarrow> 'u dstate
     \<Rightarrow> 'u dstate \<times> (exn + cid \<times> bool \<times> bool)" where
  "resolve_instance P nv ov newProps s =
     (let w = d_world s in
      case old_component w ov of
        Some c \<Rightarrow>
          (s\<lparr>d_world :=
               upd_comp c (\<lambda>x. x\<lparr>c_processingException := c_pendingError x\<rparr>)
                 (upd_vnode nv (\<lambda>x. x\<lparr>v_component := Some c\<rparr>) w)\<rparr>,
           Inr (c, False, c_pendingError (comps w c)))
      | None \<Rightarrow>
          (case construct P nv w of
             (w1, Inl e) \<Rightarrow> (s\<lparr>d_world := w1, d_events := d_events s @ [EvConstruct nv]\<rparr>, Inl e)
           | (w1, Inr c) \<Rightarrow>
               (let w2 = upd_comp c (\<lambda>x. x\<lparr>c_props := newProps\<rparr>)
                           (upd_vnode nv (\<lambda>x. x\<lparr>v_component := Some c\<rparr>) w1);
                    w3 = (if nullish (c_state (comps w2 c))
                          then (case clone_state Undefined w2 of
                                  (r, wa) \<Rightarrow> upd_comp c (\<lambda>x. x\<lparr>c_state := Ref r\<rparr>) wa)
                          else w2);
                    w4 = upd_comp c (\<lambda>x. x\<lparr>c_dirty := True, c_renderCallbacks := []\<rparr>) w3
                in (s\<lparr>d_world := w4, d_events := d_events s @ [EvConstruct nv]\<rparr>,
                    Inr (c, True, False)))))"

text \<open>
  Lines 895 to 907: \<open>_nextState\<close> is initialised from \<open>state\<close>, and
  \<open>getDerivedStateFromProps\<close>, when declared, is merged into a staged state of its own.
\<close>

definition derive_state :: "'u methods \<Rightarrow> cid \<Rightarrow> jsval \<Rightarrow> 'u dstate \<Rightarrow> 'u dstate \<times> exn option" where
  "derive_state m c newProps s =
     (let w = d_world s;
          w1 = (if nullish (c_nextState (comps w c))
                then upd_comp c (\<lambda>x. x\<lparr>c_nextState := c_state x\<rparr>) w else w)
      in case getDerivedStateFromProps m of
           None \<Rightarrow> (s\<lparr>d_world := w1\<rparr>, None)
         | Some f \<Rightarrow>
             (let w2 = (if loose_eq (c_nextState (comps w1 c)) (c_state (comps w1 c))
                        then (case clone_state (c_nextState (comps w1 c)) w1 of
                                (r, wa) \<Rightarrow> upd_comp c (\<lambda>x. x\<lparr>c_nextState := Ref r\<rparr>) wa)
                        else w1);
                  staged = c_nextState (comps w2 c);
                  s2 = s\<lparr>d_world := w2, d_events := d_events s @ [EvGetDerivedStateFromProps c]\<rparr>
              in case f newProps (props_of w2 staged) of
                   Inl e \<Rightarrow> (s2, Some e)
                 | Inr u \<Rightarrow>
                     (case (case u of UObj kvs \<Rightarrow> assign_staged staged kvs w2 | _ \<Rightarrow> Inr w2) of
                        Inl e \<Rightarrow> (s2, Some e)
                      | Inr w3 \<Rightarrow> (s2\<lparr>d_world := w3\<rparr>, None))))"

definition push_render_callback :: "cid \<Rightarrow> callback \<Rightarrow> 'u dstate \<Rightarrow> 'u dstate \<times> exn option" where
  "push_render_callback c cb =
     on_world (upd_comp c (\<lambda>x. x\<lparr>c_renderCallbacks := c_renderCallbacks x @ [cb]\<rparr>))"

text \<open>Lines 913 to 923, for a new instance.\<close>

definition mount_hooks :: "'u methods \<Rightarrow> cid \<Rightarrow> 'u dstate \<Rightarrow> 'u dstate \<times> exn option" where
  "mount_hooks m c =
     seq (case componentWillMount m of
            Some f \<Rightarrow> if getDerivedStateFromProps m = None then run_user (EvWillMount c) f else skip
          | None \<Rightarrow> skip)
         (if componentDidMount m then push_render_callback c DidMount else skip)"

text \<open>Lines 925 to 931.\<close>

definition will_receive ::
  "'u methods \<Rightarrow> cid \<Rightarrow> jsval \<Rightarrow> jsval \<Rightarrow> 'u dstate \<Rightarrow> 'u dstate \<times> exn option" where
  "will_receive m c newProps oldProps =
     (case componentWillReceiveProps m of
        Some f \<Rightarrow>
          if getDerivedStateFromProps m = None \<and> \<not> strict_eq newProps oldProps
          then run_user (EvWillReceiveProps c) (f newProps) else skip
      | None \<Rightarrow> skip)"

text \<open>
  The condition of lines 933 to 942. \<open>shouldComponentUpdate\<close> is called when \<open>c._force\<close> is
  not set and the method is declared; the second operand is evaluated when the first is
  false. The result tells whether the update is skipped.
\<close>

definition update_gate ::
  "'u methods \<Rightarrow> cid \<Rightarrow> vid \<Rightarrow> vid option \<Rightarrow> jsval \<Rightarrow> 'u dstate \<Rightarrow> 'u dstate \<times> (exn + bool)" where
  "update_gate m c nv ov newProps s =
     (let w = d_world s;
          identical = (same_stamp w nv ov \<and> \<not> c_processingException (comps w c))
      in case shouldComponentUpdate m of
           Some f \<Rightarrow>
             if \<not> c_force (comps w c)
             then (case f newProps w of
                     Inl e \<Rightarrow> (s\<lparr>d_events := d_events s @ [EvShouldUpdate c]\<rparr>, Inl e)
                   | Inr v \<Rightarrow> (s\<lparr>d_events := d_events s @ [EvShouldUpdate c]\<rparr>,
                               Inr (strict_eq v (JBool False) \<or> identical)))
             else (s, Inr identical)
         | None \<Rightarrow> (s, Inr identical))"

text \<open>
  Lines 943 to 960: the old subtree is kept. The loop that re-parents the children reads
  \<open>newVNode._children.length\<close>, which throws a \<open>TypeError\<close> when the old node has no
  children array.
\<close>

definition reparent :: "vid \<Rightarrow> vid option list \<Rightarrow> 'u world \<Rightarrow> 'u world" where
  "reparent nv ks w = fold (\<lambda>k. upd_vnode k (\<lambda>x. x\<lparr>v_parent := Some nv\<rparr>)) (List.map_filter id ks) w"

definition bail_out ::
  "cid \<Rightarrow> vid \<Rightarrow> vid option \<Rightarrow> jsval \<Rightarrow> 'u dstate \<Rightarrow> 'u dstate \<times> exn option" where
  "bail_out c nv ov newProps s =
     (let w = d_world s;
          w1 = upd_comp c (\<lambda>x. x\<lparr>c_props := newProps, c_state := c_nextState x,
                                 c_dirty := (if same_stamp w nv ov then c_dirty x else False),
                                 c_vnode := Some nv\<rparr>) w;
          w2 = upd_vnode nv (\<lambda>x. x\<lparr>v_dom := old_dom w ov, v_children := old_children w ov\<rparr>) w1;
          s1 = s\<lparr>d_commit := (if c_renderCallbacks (comps w c) \<noteq> [] then d_commit s @ [c]
                               else d_commit s)\<rparr>
      in case old_children w ov of
           None \<Rightarrow> (s1\<lparr>d_world := w2\<rparr>, Some TypeError)
         | Some ks \<Rightarrow> (s1\<lparr>d_world := reparent nv ks w2\<rparr>, None))"

text \<open>Lines 963 to 971.\<close>

definition will_update :: "'u methods \<Rightarrow> cid \<Rightarrow> jsval \<Rightarrow> 'u dstate \<Rightarrow> 'u dstate \<times> exn option" where
  "will_update m c newProps =
     seq (case componentWillUpdate m of
            Some f \<Rightarrow> run_user (EvWillUpdate c) (f newProps)
          | None \<Rightarrow> skip)
         (if componentDidUpdate m then push_render_callback c DidUpdate else skip)"

text \<open>
  The \<open>options._render\<close> hook that the hooks module installs: the pending effects of an
  instance with hooks are run and the list is emptied.
\<close>

definition render_hook :: "'u procs \<Rightarrow> cid \<Rightarrow> 'u dstate \<Rightarrow> 'u dstate \<times> exn option" where
  "render_hook P c s =
     (if c_hooks (comps (d_world s) c) = None
      then (s\<lparr>d_events := d_events s @ [EvRenderHook c]\<rparr>, None)
      else seq (run_user (EvRenderHook c) (pending_effects P c))
               (on_world (upd_comp c (\<lambda>x. x\<lparr>c_pendingEffects := 0\<rparr>))) s)"

definition call_render :: "'u procs \<Rightarrow> cid \<Rightarrow> 'u dstate \<Rightarrow> 'u dstate \<times> (exn + child)" where
  "call_render P c s =
     (case render P c (d_world s) of
        (w1, r) \<Rightarrow> (s\<lparr>d_world := w1, d_events := d_events s @ [EvRender c]\<rparr>, r))"

definition call_diffChildren ::
  "'u procs \<Rightarrow> dom option \<Rightarrow> vid \<Rightarrow> vid option \<Rightarrow> child \<Rightarrow> dom option list option
     \<Rightarrow> 'u dstate \<Rightarrow> 'u dstate \<times> exn option" where
  "call_diffChildren P parentDom nv ov kids excess s =
     (case diffChildren_proc P parentDom nv ov kids excess (d_commit s) (d_world s) of
        (w1, ops, cq, r) \<Rightarrow>
          (s\<lparr>d_world := w1, d_events := d_events s @ [EvDiffChildren nv],
             d_hostops := d_hostops s @ ops, d_commit := cq\<rparr>, r))"

text \<open>Lines 974 to 1023: the instance is rendered and its children are diffed.\<close>

definition render_tail ::
  "'u procs \<Rightarrow> 'u methods \<Rightarrow> dom option \<Rightarrow> vid \<Rightarrow> vid option \<Rightarrow> dom option list option
     \<Rightarrow> cid \<Rightarrow> bool \<Rightarrow> bool \<Rightarrow> jsval \<Rightarrow> 'u dstate \<Rightarrow> 'u dstate \<times> exn option" where
  "render_tail P m parentDom nv ov excess c isNew clearProcessingException newProps =
     seq (on_world (upd_comp c (\<lambda>x. x\<lparr>c_props := newProps, c_state := c_nextState x\<rparr>)))
    (seq (render_hook P c)
    (seq (on_world (upd_comp c (\<lambda>x. x\<lparr>c_dirty := False, c_vnode := Some nv,
                                        c_parentDom := parentDom\<rparr>)))
         (\<lambda>s. case call_render P c s of
                 (s1, Inl e) \<Rightarrow> (s1, Some e)
               | (s1, Inr kids) \<Rightarrow>
                   seq (case getChildContext m of
                          Some f \<Rightarrow> run_user (EvChildContext c) f
                        | None \<Rightarrow> skip)
                  (seq (case getSnapshotBeforeUpdate m of
                          Some f \<Rightarrow> if isNew then skip else run_user (EvSnapshot c) f
                        | None \<Rightarrow> skip)
                  (seq (call_diffChildren P parentDom nv ov kids excess)
                       (\<lambda>s2. (let w = d_world s2;
                                   w1 = upd_comp c (\<lambda>x. x\<lparr>c_base := v_dom (vnodes w nv)\<rparr>) w;
                                   w2 = (if clearProcessingException
                                         then upd_comp c (\<lambda>x. x\<lparr>c_pendingError := False,
                                                c_processingException := False\<rparr>) w1
                                         else w1);
                                   w3 = upd_comp c (\<lambda>x. x\<lparr>c_force := False\<rparr>) w2
                               in (s2\<lparr>d_world := w3,
                                      d_commit := (if c_renderCallbacks (comps w c) \<noteq> []
                                                   then d_commit s2 @ [c] else d_commit s2)\<rparr>,
                                   None))))) s1)))"

text \<open>The branch of \<open>diff\<close> for a node whose type is a function (lines 857 to 1023).\<close>

definition diff_component ::
  "'u procs \<Rightarrow> dom option \<Rightarrow> vid \<Rightarrow> vid option \<Rightarrow> dom option list option
     \<Rightarrow> 'u dstate \<Rightarrow> 'u dstate \<times> exn option" where
  "diff_component P parentDom nv ov excess s =
     (let newProps = v_props (vnodes (d_world s) nv) in
      case resolve_instance P nv ov newProps s of
        (s1, Inl e) \<Rightarrow> (s1, Some e)
      | (s1, Inr (c, isNew, clearProcessingException)) \<Rightarrow>
          (let m = methods_of P c in
           case derive_state m c newProps s1 of
             (s2, Some e) \<Rightarrow> (s2, Some e)
           | (s2, None) \<Rightarrow>
               if isNew
               then seq (mount_hooks m c)
                        (render_tail P m parentDom nv ov excess c isNew
                           clearProcessingException newProps) s2
               else
                 (case will_receive m c newProps (c_props (comps (d_world s2) c)) s2 of
                    (s3, Some e) \<Rightarrow> (s3, Some e)
                  | (s3, None) \<Rightarrow>
                      (case update_gate m c nv ov newProps s3 of
                         (s4, Inl e) \<Rightarrow> (s4, Some e)
                       | (s4, Inr True) \<Rightarrow> bail_out c nv ov newProps s4
                       | (s4, Inr False) \<Rightarrow>
                           seq (will_update m c newProps)
                               (render_tail P m parentDom nv ov excess c isNew
                                  clearProcessingException newProps) s4))))"

text \<open>
  The \<open>options.diffed\<close> hook that the hooks module installs, with \<open>afterPaint\<close>: an instance
  with pending effects is put on \<open>afterPaintEffects\<close>, and a flush of the effects is
  requested when it is the only entry or the paint strategy changed.
\<close>

definition options_diffed :: "vid \<Rightarrow> 'u world \<Rightarrow> 'u world" where
  "options_diffed nv w =
     (case v_component (vnodes w nv) of
        None \<Rightarrow> w
      | Some c \<Rightarrow>
          if c_hooks (comps w c) \<noteq> None \<and> c_pendingEffects (comps w c) \<noteq> 0
          then (let w1 = w\<lparr>afterPaintEffects := afterPaintEffects w @ [c]\<rparr>
                in if length (afterPaintEffects w1) = 1 \<or> prevRaf w1 \<noteq> requestAnimationFrame w1
                   then w1\<lparr>prevRaf := requestAnimationFrame w1,
                           paints := paints w1 @ [referent (requestAnimationFrame w1)]\<rparr>
                   else w1)
          else w)"

text \<open>The body of the \<open>try\<close> of \<open>diff\<close>, lines 857 to 1043.\<close>

definition diff_body ::
  "'u procs \<Rightarrow> vtype \<Rightarrow> dom option \<Rightarrow> vid \<Rightarrow> vid option \<Rightarrow> dom option list option
     \<Rightarrow> 'u dstate \<Rightarrow> 'u dstate \<times> exn option" where
  "diff_body P newType parentDom nv ov excess =
     seq (case newType of
            TFun f \<Rightarrow> diff_component P parentDom nv ov excess
          | _ \<Rightarrow>
              (\<lambda>s. if excess = None \<and> same_stamp (d_world s) nv ov
                    then on_world (\<lambda>w. upd_vnode nv (\<lambda>x. x\<lparr>v_children := old_children w ov,
                                                            v_dom := old_dom w ov\<rparr>) w) s
                    else (case diffElementNodes_proc P nv ov excess (d_commit s) (d_world s) of
                            (w1, ops, cq, r) \<Rightarrow>
                              (let s1 = s\<lparr>d_world := w1,
                                         d_events := d_events s @ [EvDiffElementNodes nv],
                                         d_hostops := d_hostops s @ ops, d_commit := cq\<rparr>
                               in case r of
                                    Inl e \<Rightarrow> (s1, Some e)
                                  | Inr d \<Rightarrow>
                                      on_world (upd_vnode nv (\<lambda>x. x\<lparr>v_dom := Some d\<rparr>)) s1))))
         (on_world (options_diffed nv))"

text \<open>
  \<open>diff\<close>. \<open>anc\<close> is the \<open>_parent\<close> chain of the new node, for \<open>_catchError\<close>; \<open>cq\<close> is the
  \<open>commitQueue\<close>. The result holds the world, the trace, the host calls, the \<open>commitQueue\<close>
  and, as \<open>d_result\<close>, the value returned (\<open>None\<close> is \<open>null\<close> or \<open>undefined\<close>) or the error
  thrown to the caller. The type is read before \<open>options._diff\<close> runs, which is outside the
  \<open>try\<close>.
\<close>

record 'u outcome =
  o_state :: "'u dstate"
  o_result :: "exn + dom option"

definition diff ::
  "'u procs \<Rightarrow> cid option list \<Rightarrow> dom option \<Rightarrow> vid \<Rightarrow> vid option \<Rightarrow> dom option list option
     \<Rightarrow> cid list \<Rightarrow> 'u world \<Rightarrow> 'u outcome" where
  "diff P anc parentDom nv ov excess cq w =
     (let s0 = \<lparr>d_world = w, d_events = [], d_hostops = [], d_commit = cq\<rparr>;
          newType = v_type (vnodes w nv)
      in if v_ctor (vnodes w nv) then \<lparr>o_state = s0, o_result = Inr None\<rparr>
         else
           (case (case opt_diff P of Some h \<Rightarrow> run_user (EvDiffHook nv) (h nv) s0
                  | None \<Rightarrow> skip s0) of
              (s1, Some e) \<Rightarrow> \<lparr>o_state = s1, o_result = Inl e\<rparr>
            | (s1, None) \<Rightarrow>
                (case diff_body P newType parentDom nv ov excess s1 of
                   (s2, None) \<Rightarrow>
                     \<lparr>o_state = s2, o_result = Inr (v_dom (vnodes (d_world s2) nv))\<rparr>
                 | (s2, Some e) \<Rightarrow>
                     (case catchError (methods_of P) e False anc
                             (upd_vnode nv (\<lambda>x. x\<lparr>v_original := JNull\<rparr>) (d_world s2)) of
                        (w3, t, Rethrown e') \<Rightarrow>
                          \<lparr>o_state = s2\<lparr>d_world := w3, d_events := d_events s2 @ [EvCatchError nv]\<rparr>,
                           o_result = Inl e'\<rparr>
                      | (w3, t, Handled b) \<Rightarrow>
                          \<lparr>o_state = s2\<lparr>d_world := w3, d_events := d_events s2 @ [EvCatchError nv]\<rparr>,
                           o_result = Inr (v_dom (vnodes w3 nv))\<rparr>))))"

text \<open>
  For a node whose old node has an instance \<open>c\<close>: the part of \<open>diff_component\<close> that runs
  before the test of lines 933 to 942 (lines 872 to 931), that is, the state in which the
  test is evaluated.
\<close>

definition update_prelude ::
  "'u procs \<Rightarrow> vid \<Rightarrow> vid option \<Rightarrow> cid \<Rightarrow> 'u dstate \<Rightarrow> 'u dstate \<times> exn option" where
  "update_prelude P nv ov c s =
     (let newProps = v_props (vnodes (d_world s) nv) in
      case resolve_instance P nv ov newProps s of
        (s1, Inl e) \<Rightarrow> (s1, Some e)
      | (s1, Inr x) \<Rightarrow>
          (case derive_state (methods_of P c) c newProps s1 of
             (s2, Some e) \<Rightarrow> (s2, Some e)
           | (s2, None) \<Rightarrow>
               will_receive (methods_of P c) c newProps (c_props (comps (d_world s2) c)) s2))"

section \<open>Concrete worlds for the examples\<close>


text \<open>
  Instance 0 inside its constructor, after \<open>this.state = {n: 0}\<close>: the state object is
  object 0, no diff has staged a next state yet, and the instance has no virtual node.
\<close>

definition world_c6 :: "nat world" where
  "world_c6 = world0\<lparr>comps := (comps world0)(0 := component0\<lparr>c_state := Ref 0\<rparr>),
                      heap := (heap world0)(0 := [''n'' \<mapsto> JNum 0]), next_ref := 1\<rparr>"

text \<open>
  Instance 0 is a mounted function component (virtual node 0) whose first hook cell is a
  state cell holding 5; its state object is object 0, staged by the last diff. The reducer
  of \<open>useState\<close> applied to a value that is not a function returns that value.
\<close>

definition world_c9 :: "nat world" where
  "world_c9 = world0\<lparr>comps := (comps world0)(0 := component0\<lparr>c_state := Ref 0,
                        c_nextState := Ref 0, c_vnode := Some 0,
                        c_hooks := Some [\<lparr>hc_value = JNum 5, hc_cleanup = None\<rparr>]\<rparr>),
                      next_ref := 1\<rparr>"

definition set_value :: "jsval \<Rightarrow> jsval \<Rightarrow> exn + jsval" where
  "set_value current action = Inr action"




definition mounted_c2 :: "nat world" where
  "mounted_c2 = world0\<lparr>
      comps := (comps world0)
        (0 := component0\<lparr>c_vnode := Some 0, c_state := Ref 0, c_nextState := Ref 0,
                         c_parentDom := Some 0\<rparr>,
         1 := component0\<lparr>c_vnode := Some 1, c_state := Ref 1, c_nextState := Ref 1,
                         c_parentDom := Some 0\<rparr>),
      vnodes := (vnodes world0)
        (0 := vnode0\<lparr>v_type := TFun 0, v_component := Some 0\<rparr>,
         1 := vnode0\<lparr>v_type := TFun 1, v_component := Some 1, v_parent := Some 0, v_depth := 1\<rparr>),
      next_ref := 2\<rparr>"


text \<open>
  A \<open>renderComponent\<close> that lets an error escape, and the world after \<open>setState\<close> on the
  instance 0 of \<open>mounted_c2\<close> and the pass of \<open>process\<close> that followed.
\<close>

definition rc_throws :: "cid \<Rightarrow> nat ucode" where
  "rc_throws c w = (w, Some (Raised (JStr ''boom'')))"

definition world_stuck :: "nat world" where
  "world_stuck = fst (flush_pass rc_throws (enqueueRender 0 mounted_c2))"

text \<open>
  Three ancestors of a node that threw. Instance 1 (nearest) declares
  \<open>getDerivedStateFromError\<close>, which throws itself; instance 2 declares no error handler;
  instance 3 declares \<open>componentDidCatch\<close>.
\<close>

definition M_c3 :: "cid \<Rightarrow> nat methods" where
  "M_c3 c =
     (if c = 1
      then no_methods\<lparr>getDerivedStateFromError := Some (\<lambda>e. Inl (Raised (JStr ''second'')))\<rparr>
      else if c = 3 then no_methods\<lparr>componentDidCatch := Some (\<lambda>e w. (w, None))\<rparr>
      else no_methods)"

text \<open>
  Virtual node 0 is backed by instance 0, a function component with three hook cells: an
  effect with cleanup 0, a state cell, an effect with cleanup 1. In \<open>CL_c8\<close> cleanup 0
  throws; in \<open>CL_quiet\<close> no cleanup throws.
\<close>

definition cells_c8 :: "hookcell list" where
  "cells_c8 = [\<lparr>hc_value = JUndefined, hc_cleanup = Some 0\<rparr>,
               \<lparr>hc_value = JNum 5, hc_cleanup = None\<rparr>,
               \<lparr>hc_value = JUndefined, hc_cleanup = Some 1\<rparr>]"

definition world_c8 :: "nat world" where
  "world_c8 = world0\<lparr>
      comps := (comps world0)(0 := component0\<lparr>c_vnode := Some 0, c_hooks := Some cells_c8\<rparr>),
      vnodes := (vnodes world0)(0 := vnode0\<lparr>v_type := TFun 0, v_component := Some 0\<rparr>)\<rparr>"

definition CL_c8 :: "nat \<Rightarrow> nat ucode" where
  "CL_c8 k w = (w, if k = 0 then Some (Raised (JStr ''boom'')) else None)"

definition CL_quiet :: "nat \<Rightarrow> nat ucode" where
  "CL_quiet k w = (w, None)"

text \<open>
  Old children \<open>a\<close>, \<open>b\<close> (keyed \<open>div\<close>s), a placeholder and an unkeyed \<open>p\<close>; new children
  \<open>b\<close>, \<open>[a, c]\<close>, \<open>null\<close>, an unkeyed \<open>p\<close> and a text.
\<close>

definition no_tonum :: "string \<Rightarrow> int option" where
  "no_tonum s = None"

definition keyed :: "string \<Rightarrow> string \<Rightarrow> vnode" where
  "keyed tag k = vnode0\<lparr>v_type := TTag tag, v_key := KStr k\<rparr>"

definition unkeyed :: "string \<Rightarrow> vnode" where
  "unkeyed tag = vnode0\<lparr>v_type := TTag tag\<rparr>"

definition olds_c1 :: "slot list" where
  "olds_c1 = [Old (keyed ''div'' ''a''), Old (keyed ''div'' ''b''), Hole, Old (unkeyed ''p'')]"

definition news_c1 :: child where
  "news_c1 = CArray [CNode (keyed ''div'' ''b''),
                     CArray [CNode (keyed ''div'' ''a''), CNode (keyed ''span'' ''c'')],
                     CNullish, CNode (unkeyed ''p''), CPrim (JStr ''text'')]"

text \<open>
  Callees that do the least: no \<open>options._diff\<close> hook, classes without lifecycle methods,
  a render that returns no child, a \<open>diffChildren\<close> that appends one host node and a
  \<open>diffElementNodes\<close> that creates one.
\<close>

definition procs0 :: "nat procs" where
  "procs0 = \<lparr>opt_diff = None, methods_of = (\<lambda>c. no_methods),
     construct = (\<lambda>v w. (w, Inr 0)),
     pending_effects = (\<lambda>c w. (w, None)),
     render = (\<lambda>c w. (w, Inr (CArray []))),
     diffChildren_proc = (\<lambda>parentDom nv ov kids excess cq w. (w, [AppendChild 9], cq, None)),
     diffElementNodes_proc = (\<lambda>nv ov excess cq w. (w, [CreateElement ''div''], cq, Inr 7))\<rparr>"

text \<open>
  \<open>json_c10\<close> is the object that \<open>JSON.parse\<close> makes of
  \<open>{"type": "div", "props": {...}, "_dom": 1}\<close>: its \<open>constructor\<close> is \<open>Object\<close>, its props
  are object 8, and it has a \<open>_dom\<close> that is not \<open>null\<close>. In \<open>world_c10\<close> it is node 0. In
  \<open>world_clone\<close> node 5 is what \<open>toChildArray\<close> makes of it when it is given as a child.
  Nodes 1 and 2 of \<open>world_c5\<close> are an old \<open>div\<close>, rendered to host node 3, and a new node with
  the same stamp.
\<close>

definition json_c10 :: vnode where
  "json_c10 = vnode0\<lparr>v_type := TTag ''div'', v_props := JRef 8, v_ctor := True, v_dom := Some 1\<rparr>"

definition world_c10 :: "nat world" where
  "world_c10 = world0\<lparr>vnodes := (vnodes world0)(0 := json_c10)\<rparr>"

definition clone_c10 :: vnode where
  "clone_c10 = createVNode 5 (TTag ''div'') (JRef 8) KNone JUndefined"

definition world_clone :: "nat world" where
  "world_clone = world0\<lparr>vnodes := (vnodes world0)(5 := clone_c10)\<rparr>"

definition world_c5 :: "nat world" where
  "world_c5 = world0\<lparr>vnodes := (vnodes world0)
      (1 := vnode0\<lparr>v_type := TTag ''div'', v_original := JRef 1, v_children := Some [], v_dom := Some 3\<rparr>,
       2 := vnode0\<lparr>v_type := TTag ''div'', v_original := JRef 1\<rparr>)\<rparr>"

text \<open>
  Instance 0 is mounted with old node 1 (props object 4, host node 3); its state is object
  0 and a \<open>setState\<close> has staged object 1. Node 2 is a new node for it, with props object 5
  and a stamp of its own; node 3 is a new node for it with the stamp of node 1. The class
  of \<open>procs_c4\<close> declares a \<open>shouldComponentUpdate\<close> that returns \<open>false\<close>. In \<open>failed_c4\<close>
  the instance has a pending error (an error boundary that caught one).
\<close>

definition procs_c4 :: "nat procs" where
  "procs_c4 = procs0\<lparr>methods_of :=
      (\<lambda>c. no_methods\<lparr>shouldComponentUpdate := Some (\<lambda>p w. Inr (JBool False))\<rparr>)\<rparr>"

definition world_c4 :: "nat world" where
  "world_c4 = world0\<lparr>
      comps := (comps world0)
        (0 := component0\<lparr>c_props := JRef 4, c_state := Ref 0, c_nextState := Ref 1,
                         c_vnode := Some 1, c_parentDom := Some 0, c_base := Some 3\<rparr>),
      vnodes := (vnodes world0)
        (1 := vnode0\<lparr>v_type := TFun 0, v_props := JRef 4, v_original := JRef 1,
                     v_children := Some [], v_dom := Some 3, v_component := Some 0\<rparr>,
         2 := vnode0\<lparr>v_type := TFun 0, v_props := JRef 5, v_original := JRef 2\<rparr>,
         3 := vnode0\<lparr>v_type := TFun 0, v_props := JRef 6, v_original := JRef 1\<rparr>),
      next_ref := 7\<rparr>"

definition start_c4 :: "nat dstate" where
  "start_c4 = \<lparr>d_world = world_c4, d_events = [], d_hostops = [], d_commit = []\<rparr>"

definition failed_c4 :: "nat dstate" where
  "failed_c4 = \<lparr>d_world = upd_comp 0 (\<lambda>x. x\<lparr>c_pendingError := True\<rparr>) world_c4,
                 d_events = [], d_hostops = [], d_commit = []\<rparr>"

section \<open>Properties of the scheduler\<close>

lemma comps_enqueueRender:
  "comps (enqueueRender c w) = (comps w)(c := (comps w c)\<lparr>c_dirty := True\<rparr>)"
  by (auto simp: enqueueRender_def upd_comp_def Let_def fun_eq_iff)

lemma rerenderQueue_enqueueRender:
  "rerenderQueue (enqueueRender c w) =
     (if c_dirty (comps w c) then rerenderQueue w else rerenderQueue w @ [c])"
  by (simp add: enqueueRender_def upd_comp_def Let_def)




subsection \<open>C7: what \<open>enqueueRender\<close> does\<close>


text \<open>
  The counter \<open>rerenderCount\<close> is zero when nothing is pending. \<open>process\<close> keeps it above
  zero while it consumes a queue, so that requests made meanwhile schedule no second
  flush, and sets it to zero when it ends. When an error escapes \<open>renderComponent\<close>,
  \<open>process\<close> ends without that: the queue is empty, the counter is not, and the next
  request is queued but no flush is scheduled for it. Here \<open>renderComponent\<close> throws for
  instance 0, and instance 1 is enqueued afterwards.
\<close>

lemma enqueueRender_after_thrown_flush:
  "rerenderQueue world_stuck = [] \<and> rerenderCount world_stuck = 1
   \<and> \<not> c_dirty (comps world_stuck 1)
   \<and> rerenderQueue (enqueueRender 1 world_stuck) = [1]
   \<and> scheduled (enqueueRender 1 world_stuck) = scheduled world_stuck"
  by (simp add: world_stuck_def rc_throws_def flush_pass_def sort_queue_def enqueueRender_def
      upd_comp_def mounted_c2_def world0_def component0_def vnode0_def)



section \<open>Properties of \<open>setState\<close> and of the state hook\<close>

text \<open>
  On an instance with a staged state, \<open>setState\<close> does what its contract says: a nullish
  update is dropped; an object is merged into the staged state, which is a new copy of
  the state when the two were the same object; a mounted instance is enqueued and the
  callback recorded.
\<close>

lemma setState_dropped:
  "setState c (Direct UNullish) cb w = (w', r) \<Longrightarrow>
     r = None \<and> rerenderQueue w' = rerenderQueue w \<and> scheduled w' = scheduled w
   \<and> c_dirty (comps w' c) = c_dirty (comps w c)
   \<and> c_renderCallbacks (comps w' c) = c_renderCallbacks (comps w c)"
  by (auto simp: setState_def Let_def clone_state_def upd_comp_def split: if_splits prod.splits)

lemma setState_staged:
  assumes st: "c_nextState (comps w c) = Ref r" "c_nextState (comps w c) \<noteq> c_state (comps w c)"
    and res: "setState c (Direct (UObj kvs)) cb w = (w', e)"
  shows "e = None \<and> c_nextState (comps w' c) = Ref r \<and> heap w' r = assign (heap w r) kvs
       \<and> (c_vnode (comps w c) = None \<longrightarrow>
            rerenderQueue w' = rerenderQueue w \<and> c_dirty (comps w' c) = c_dirty (comps w c)
          \<and> c_renderCallbacks (comps w' c) = c_renderCallbacks (comps w c))
       \<and> (c_vnode (comps w c) \<noteq> None \<longrightarrow>
            c_dirty (comps w' c)
          \<and> rerenderQueue w' = (if c_dirty (comps w c) then rerenderQueue w else rerenderQueue w @ [c])
          \<and> c_renderCallbacks (comps w' c)
              = c_renderCallbacks (comps w c) @ (case cb of None \<Rightarrow> [] | Some k \<Rightarrow> [k]))"
  using st res
  by (auto simp: setState_def Let_def assign_staged_def push_callback_def upd_comp_def
      enqueueRender_def split: option.splits if_splits)

lemma setState_first_time:
  assumes st: "c_nextState (comps w c) = c_state (comps w c)"
    and res: "setState c (Direct (UObj kvs)) cb w = (w', e)"
  shows "e = None \<and> c_nextState (comps w' c) = Ref (next_ref w)
       \<and> c_state (comps w' c) = c_state (comps w c)
       \<and> heap w' (next_ref w) = assign (props_of w (c_state (comps w c))) kvs
       \<and> (\<forall>r. r \<noteq> next_ref w \<longrightarrow> heap w' r = heap w r)"
  using st res
  by (auto simp: setState_def Let_def assign_staged_def clone_state_def push_callback_def
      upd_comp_def enqueueRender_def split: option.splits if_splits)

text \<open>
  A staged state that is \<open>null\<close> or \<open>undefined\<close> while the state is another value takes
  no property: \<open>setState\<close> throws.
\<close>

lemma setState_unstaged:
  assumes "nullish (c_nextState (comps w c))" "c_nextState (comps w c) \<noteq> c_state (comps w c)"
    and "kvs \<noteq> []"
  shows "setState c (Direct (UObj kvs)) cb w = (w, Some TypeError)"
  using assms
  by (auto simp: setState_def Let_def assign_staged_def nullish_def)

text \<open>
  C6 (the code departs from the claim). The claim has every accepted update merged into
  the staged next state, which is cloned from the state the first time. On an instance
  that no diff has reached yet, \<open>_nextState\<close> is \<open>undefined\<close> while \<open>state\<close> is the object the
  constructor assigned: the test \<open>this._nextState !== this.state\<close> takes \<open>undefined\<close> for
  an already diverged staged state, nothing is cloned, and \<open>assign(undefined, update)\<close>
  throws a \<open>TypeError\<close>. Here the constructor of instance 0 calls
  \<open>this.setState({n: 1})\<close> after \<open>this.state = {n: 0}\<close>.
\<close>

theorem setState_in_constructor_throws:
  "setState 0 (Direct (UObj [(''n'', JNum 1)])) None world_c6 = (world_c6, Some TypeError)"
  by (simp add: setState_def world_c6_def world0_def component0_def assign_staged_def)

text \<open>
  C9. Let the setter of state cell \<open>i\<close> of instance \<open>c\<close> be called with an action for
  which the reducer returns \<open>nv\<close>. If \<open>nv\<close> is identical (\<open>===\<close>) to the cell's value, the
  world is unchanged: the cell keeps its value and nothing is enqueued. Otherwise the
  cell holds \<open>nv\<close> afterwards, nothing is thrown, and a mounted owner is dirty afterwards
  and has been appended to the render queue unless it was dirty already.
\<close>

theorem dispatch_identity:
  assumes cell: "get_cell w c i = Some cell"
    and red: "reducer (hc_value cell) a = Inr nv"
  shows "(strict_eq (hc_value cell) nv \<longrightarrow> dispatch reducer c i a w = (w, None))
       \<and> (\<not> strict_eq (hc_value cell) nv \<longrightarrow>
            snd (dispatch reducer c i a w) = None
          \<and> get_cell (fst (dispatch reducer c i a w)) c i = Some (cell\<lparr>hc_value := nv\<rparr>)
          \<and> (c_vnode (comps w c) \<noteq> None \<longrightarrow>
                c_dirty (comps (fst (dispatch reducer c i a w)) c)
              \<and> rerenderQueue (fst (dispatch reducer c i a w)) =
                  (if c_dirty (comps w c) then rerenderQueue w else rerenderQueue w @ [c])))"
proof (cases "strict_eq (hc_value cell) nv")
  case True
  with cell red show ?thesis by (simp add: dispatch_def)
next
  case False
  let ?w1 = "set_cell_value c i nv w"
  have d: "dispatch reducer c i a w = setState c (Direct (UObj [])) None ?w1"
    using cell red False by (simp add: dispatch_def)
  have c1: "get_cell ?w1 c i = Some (cell\<lparr>hc_value := nv\<rparr>)"
    using cell by (auto simp: get_cell_def set_cell_value_def upd_comp_def split: option.splits if_splits)
  have same: "c_vnode (comps ?w1 c) = c_vnode (comps w c)" "c_dirty (comps ?w1 c) = c_dirty (comps w c)"
    "rerenderQueue ?w1 = rerenderQueue w"
    by (simp_all add: set_cell_value_def upd_comp_def)
  have s1: "snd (setState c (Direct (UObj [])) None ?w1) = None"
    by (simp add: setState_def Let_def assign_staged_def split: prod.splits jsref.splits)
  have s2: "get_cell (fst (setState c (Direct (UObj [])) None ?w1)) c i = get_cell ?w1 c i"
    by (auto simp: setState_def Let_def assign_staged_def clone_state_def push_callback_def
        upd_comp_def get_cell_def comps_enqueueRender split: prod.splits option.splits jsref.splits)
  have s3: "c_dirty (comps (fst (setState c (Direct (UObj [])) None ?w1)) c)
      \<and> rerenderQueue (fst (setState c (Direct (UObj [])) None ?w1)) =
          (if c_dirty (comps w c) then rerenderQueue w else rerenderQueue w @ [c])"
    if "c_vnode (comps w c) \<noteq> None"
    using that same
    by (auto simp: setState_def Let_def assign_staged_def clone_state_def push_callback_def
        upd_comp_def comps_enqueueRender rerenderQueue_enqueueRender
        split: prod.splits option.splits jsref.splits)
  from False d c1 s1 s2 s3 show ?thesis by simp
qed

theorem dispatch_identity_witness:
  "get_cell world_c9 0 0 = Some \<lparr>hc_value = JNum 5, hc_cleanup = None\<rparr>
   \<and> set_value (JNum 5) (JNum 5) = Inr (JNum 5) \<and> strict_eq (JNum 5) (JNum 5)
   \<and> dispatch set_value 0 0 (JNum 5) world_c9 = (world_c9, None)
   \<and> set_value (JNum 5) (JNum 6) = Inr (JNum 6) \<and> \<not> strict_eq (JNum 5) (JNum 6)
   \<and> c_vnode (comps world_c9 0) \<noteq> None
   \<and> get_cell (fst (dispatch set_value 0 0 (JNum 6) world_c9)) 0 0
       = Some \<lparr>hc_value = JNum 6, hc_cleanup = None\<rparr>
   \<and> c_dirty (comps (fst (dispatch set_value 0 0 (JNum 6) world_c9)) 0)
   \<and> rerenderQueue (fst (dispatch set_value 0 0 (JNum 6) world_c9)) = [0]"
proof -
  have g: "get_cell world_c9 0 0 = Some \<lparr>hc_value = JNum 5, hc_cleanup = None\<rparr>"
    by (simp add: get_cell_def world_c9_def world0_def component0_def)
  have v: "c_vnode (comps world_c9 0) \<noteq> None" "\<not> c_dirty (comps world_c9 0)"
    "rerenderQueue world_c9 = []"
    by (simp_all add: world_c9_def world0_def component0_def)
  have r5: "set_value (hc_value \<lparr>hc_value = JNum 5, hc_cleanup = None\<rparr>) (JNum 5) = Inr (JNum 5)"
    and r6: "set_value (hc_value \<lparr>hc_value = JNum 5, hc_cleanup = None\<rparr>) (JNum 6) = Inr (JNum 6)"
    by (simp_all add: set_value_def)
  show ?thesis
    using dispatch_identity [where reducer = set_value and a = "JNum 5", OF g r5]
      dispatch_identity [where reducer = set_value and a = "JNum 6", OF g r6] g v
    by (simp add: set_value_def)
qed

section \<open>Properties of the flush loop\<close>


lemma run_queue_clean:
  "\<forall>c \<in> set q. \<not> c_dirty (comps w c) \<Longrightarrow> run_queue rc q w = (w, [], None)"
  by (induction q) simp_all





subsection \<open>C2: one pass of \<open>process\<close>\<close>




section \<open>Properties of the error walk\<close>

text \<open>
  An ancestor that the walk passes over when nothing was caught before: it has no
  instance, or its instance is handling an error already, or declares neither handler.
\<close>

lemma catchError_skip:
  assumes "\<forall>a \<in> set pre. case a of None \<Rightarrow> True
             | Some c \<Rightarrow> c_processingException (comps w c)
                 \<or> (getDerivedStateFromError (M c) = None \<and> componentDidCatch (M c) = None)"
  shows "catchError M e False (pre @ anc) w = catchError M e False anc w"
  using assms
proof (induction pre)
  case Nil
  then show ?case by simp
next
  case (Cons a pre)
  then show ?case
    by (cases a) (auto simp: derive_step_def didCatch_step_def split: prod.splits)
qed

lemma catchError_unhandled:
  assumes "\<forall>a \<in> set anc. case a of None \<Rightarrow> True
             | Some c \<Rightarrow> c_processingException (comps w c)
                 \<or> (getDerivedStateFromError (M c) = None \<and> componentDidCatch (M c) = None)"
  shows "catchError M e False anc w = (w, [], Rethrown e)"
  using catchError_skip [OF assms, of e "[]"] by simp

lemma catchError_didCatch:
  assumes "\<not> c_processingException (comps w c)"
    and "getDerivedStateFromError (M c) = None"
    and "componentDidCatch (M c) = Some g" and "g e w = (w1, None)"
  shows "catchError M e False (Some c # anc) w =
           (enqueueRender c (upd_comp c (\<lambda>x. x\<lparr>c_pendingError := True\<rparr>) w1),
            [CallComponentDidCatch c e], Handled c)"
  using assms by (simp add: derive_step_def didCatch_step_def)

subsection \<open>C3: a handler that throws\<close>

text \<open>
  C3 (the code departs from the claim). The error \<open>first\<close> reaches instance 1, whose
  \<open>getDerivedStateFromError\<close> throws \<open>second\<close>. The claim has the walk go on with \<open>second\<close>
  to the next ancestor that declares a handler, instance 3, and call its
  \<open>componentDidCatch\<close>. In the code \<open>hasCaught\<close> was set before the handler was called and
  is never reset: the walk stops at instance 2, which declares no handler, marks it as
  having a pending error and enqueues it; \<open>second\<close> is dropped, and instance 3 is neither
  called nor enqueued.
\<close>

theorem catchError_after_throwing_handler:
  "catchError M_c3 (Raised (JStr ''first'')) False [Some 1, Some 2, Some 3] world0
     = (enqueueRender 2 (upd_comp 2 (\<lambda>x. x\<lparr>c_pendingError := True\<rparr>) world0),
        [CallGetDerivedStateFromError 1 (Raised (JStr ''first''))], Handled 2)
   \<and> getDerivedStateFromError (M_c3 2) = None \<and> componentDidCatch (M_c3 2) = None
   \<and> componentDidCatch (M_c3 3) \<noteq> None"
  by (simp add: M_c3_def no_methods_def derive_step_def didCatch_step_def world0_def
      component0_def upd_comp_def)

section \<open>Properties of the hook cleanups\<close>

lemma run_cleanups_prefix:
  "run_cleanups CL cells w = (w', ks, r) \<Longrightarrow>
     prefix ks (registered_cleanups cells)
   \<and> (r = None \<longrightarrow> ks = registered_cleanups cells)
   \<and> (\<forall>e. r = Some e \<longrightarrow> ks \<noteq> [] \<and> (\<exists>w1. CL (last ks) w1 = (w', Some e)))"
proof (induction cells arbitrary: w w' ks r)
  case Nil
  then show ?case by (simp add: registered_cleanups_def map_filter_simps)
next
  case (Cons h hs)
  show ?case
  proof (cases "hc_cleanup h")
    case None
    with Cons.prems have "run_cleanups CL hs w = (w', ks, r)" by simp
    from Cons.IH [OF this] None show ?thesis
      by (simp add: registered_cleanups_def map_filter_simps)
  next
    case (Some k)
    obtain w1 e where cl: "CL k w = (w1, e)" by (cases "CL k w")
    show ?thesis
    proof (cases e)
      case (Some x)
      with \<open>hc_cleanup h = Some k\<close> cl Cons.prems have "ks = [k]" "r = Some x" "w' = w1"
        by simp_all
      with \<open>hc_cleanup h = Some k\<close> cl Some show ?thesis
        by (auto simp: registered_cleanups_def map_filter_simps)
    next
      case None
      obtain w2 ks2 r2 where rest: "run_cleanups CL hs w1 = (w2, ks2, r2)"
        by (cases "run_cleanups CL hs w1")
      with None \<open>hc_cleanup h = Some k\<close> cl Cons.prems
      have eq: "ks = k # ks2" "r = r2" "w' = w2" by simp_all
      from Cons.IH [OF rest] eq \<open>hc_cleanup h = Some k\<close> show ?thesis
        by (auto simp: registered_cleanups_def map_filter_simps)
    qed
  qed
qed

lemmas eval_c8 = options_unmount_def world_c8_def cells_c8_def CL_c8_def CL_quiet_def
  registered_cleanups_def map_filter_simps world0_def component0_def vnode0_def

subsection \<open>C8: cleanups when a component is unmounted\<close>

text \<open>
  C8, as stated, fails. The component has the cleanups 0 and 1, registered in this order,
  and cleanup 0 throws. The \<open>forEach\<close> over the cells stands inside one \<open>try\<close>: the throw
  ends it, the error goes to \<open>_catchError\<close> (here there is no ancestor, so it is thrown
  on), and cleanup 1 is never called.
\<close>

theorem unmount_cleanup_throws_counterexample:
  "registered_cleanups cells_c8 = [0, 1]
   \<and> options_unmount CL_c8 (\<lambda>c. no_methods) [] 0 world_c8
       = (world_c8, [0], [], Some (Rethrown (Raised (JStr ''boom''))))"
  by (simp add: eval_c8)

text \<open>
  C8, amended. When a virtual node backed by an instance with hooks is unmounted, the
  stored cleanups are called in the cells' registration order, each at most once, up to
  the first one that throws: the cleanups called are a prefix of the registered ones.
  If none throws, every one has been called and no error handler runs. If one throws, it
  is the last one called, the cleanups of the remaining cells are not called, and its
  error is passed to \<open>_catchError\<close> once.
\<close>

theorem unmount_cleanups:
  assumes v: "v_component (vnodes w v) = Some c"
    and h: "c_hooks (comps w c) = Some cells"
    and u: "options_unmount CL M anc v w = (w', ks, t, out)"
  shows "prefix ks (registered_cleanups cells)
       \<and> (out = None \<longrightarrow> ks = registered_cleanups cells \<and> t = [])
       \<and> (\<forall>res. out = Some res \<longrightarrow>
            ks \<noteq> [] \<and> (\<exists>w1 w2 e. CL (last ks) w1 = (w2, Some e)
                              \<and> catchError M e False anc w2 = (w', t, res)))"
proof -
  obtain w1 ks1 r where rc: "run_cleanups CL cells w = (w1, ks1, r)"
    by (cases "run_cleanups CL cells w")
  note pre = run_cleanups_prefix [OF rc]
  show ?thesis
  proof (cases r)
    case None
    with v h u rc have "ks = ks1" "t = []" "out = None"
      by (simp_all add: options_unmount_def)
    with pre None show ?thesis by simp
  next
    case (Some e)
    obtain w2 t2 res where ce: "catchError M e False anc w1 = (w2, t2, res)"
      by (cases "catchError M e False anc w1")
    with Some v h u rc have eq: "ks = ks1" "t = t2" "out = Some res" "w' = w2"
      by (simp_all add: options_unmount_def)
    from pre Some obtain w0 where "ks1 \<noteq> []" "CL (last ks1) w0 = (w1, Some e)"
      by auto
    with pre eq ce show ?thesis by auto
  qed
qed

theorem unmount_cleanups_witness:
  "v_component (vnodes world_c8 0) = Some 0 \<and> c_hooks (comps world_c8 0) = Some cells_c8
   \<and> options_unmount CL_quiet (\<lambda>c. no_methods) [] 0 world_c8 = (world_c8, [0, 1], [], None)
   \<and> prefix [0, 1] (registered_cleanups cells_c8)
   \<and> [0, 1] = registered_cleanups cells_c8
   \<and> options_unmount CL_c8 (\<lambda>c. no_methods) [] 0 world_c8
       = (world_c8, [0], [], Some (Rethrown (Raised (JStr ''boom''))))
   \<and> prefix [0] (registered_cleanups cells_c8)
   \<and> CL_c8 (last [0]) world_c8 = (world_c8, Some (Raised (JStr ''boom'')))"
proof -
  have v: "v_component (vnodes world_c8 0) = Some 0"
    and h: "c_hooks (comps world_c8 0) = Some cells_c8"
    by (simp_all add: world_c8_def world0_def component0_def vnode0_def)
  have u: "options_unmount CL_quiet (\<lambda>c. no_methods) [] 0 world_c8 = (world_c8, [0, 1], [], None)"
    by (simp add: eval_c8)
  have t: "options_unmount CL_c8 (\<lambda>c. no_methods) [] 0 world_c8
       = (world_c8, [0], [], Some (Rethrown (Raised (JStr ''boom''))))"
    by (simp add: eval_c8)
  have c: "CL_c8 (last [0]) world_c8 = (world_c8, Some (Raised (JStr ''boom'')))"
    by (simp add: CL_c8_def)
  show ?thesis
    using unmount_cleanups [OF v h u] unmount_cleanups [OF v h t] v h u t c by simp
qed

section \<open>Properties of the child matching\<close>

lemma matches_iff:
  "matches tonum ch sl \<longleftrightarrow> (\<exists>ov. sl = Old ov \<and> same_key_type tonum ch ov)"
  by (cases sl) (simp_all add: matches_def same_key_type_def)

lemma scan_find:
  "scan tonum ch j olds =
     (case find (\<lambda>k. matches tonum ch (olds ! k)) [j..<length olds] of
        Some k \<Rightarrow> (old_node (olds ! k), olds[k := Taken])
      | None \<Rightarrow> (None, olds))"
proof (induction tonum ch j olds rule: scan.induct)
  case (1 tonum ch j olds)
  show ?case
  proof (cases "j < length olds")
    case False
    then show ?thesis by (simp add: scan.simps)
  next
    case True
    then have up: "[j..<length olds] = j # [j + 1..<length olds]"
      by (simp add: upt_conv_Cons)
    show ?thesis
    proof (cases "matches tonum ch (olds ! j)")
      case True
      with \<open>j < length olds\<close> up show ?thesis by (simp add: scan.simps)
    next
      case False
      with \<open>j < length olds\<close> "1.IH" have "scan tonum ch (j + 1) olds =
        (case find (\<lambda>k. matches tonum ch (olds ! k)) [j + 1..<length olds] of
           Some k \<Rightarrow> (old_node (olds ! k), olds[k := Taken])
         | None \<Rightarrow> (None, olds))" by simp
      with False \<open>j < length olds\<close> up show ?thesis by (simp add: scan.simps)
    qed
  qed
qed

lemma match_old_spec: "match_old tonum ch i olds = spec_match tonum ch i olds"
proof -
  have f: "(\<lambda>k. matches tonum ch (olds ! k))
         = (\<lambda>j. \<exists>ov. olds ! j = Old ov \<and> same_key_type tonum ch ov)"
    by (simp add: matches_iff)
  show ?thesis
    unfolding match_old_def spec_match_def scan_find f
    by (auto simp: slot_at_def matches_iff old_node_def)
qed

lemma walk_spec_walk: "walk tonum i cs olds = spec_walk tonum i cs olds"
  by (induction tonum i cs olds rule: walk.induct)
     (simp_all add: match_old_spec split: prod.splits)

lemma spec_match_same:
  assumes "spec_match tonum ch i olds = (Some ov, olds')"
  shows "same_key_type tonum ch ov"
  using assms unfolding spec_match_def
  by (auto simp: old_node_def find_Some_iff split: if_splits option.splits)

lemma spec_walk_same:
  "(ch, Some ov) \<in> set (fst (spec_walk tonum i cs olds)) \<Longrightarrow> same_key_type tonum ch ov"
  by (induction tonum i cs olds rule: spec_walk.induct)
     (auto split: prod.splits dest: spec_match_same)

lemma unkeyed_match:
  "same_key_type tonum ch ov \<Longrightarrow> flat_key ch = KNone
     \<Longrightarrow> v_key ov = KNone \<and> v_type ov = flat_type ch"
  by (cases "v_key ov") (auto simp: same_key_type_def)

lemmas eval_c1 = news_c1_def olds_c1_def match_old_def slot_at_def matches_def keyed_def
  unkeyed_def vnode0_def no_tonum_def scan.simps old_node_def same_key_type_def

subsection \<open>C1: which old child a new child is diffed against\<close>

text \<open>
  C1. The pass of \<open>diffChildren\<close> over the new children pairs every new child that is not
  \<open>null\<close> with the old node the specification names: for the child at index \<open>i\<close>, the old
  slot \<open>i\<close> when it is a placeholder (the child is then diffed against the empty node) or
  holds a node of the same key and type; otherwise the first old node, not consumed yet,
  of the same key and type; otherwise the empty node. A new child is only ever paired
  with an old node of the same key and type, and a child without key only with an old
  node without key.
\<close>

theorem diffChildren_matching:
  "walk tonum i cs olds = spec_walk tonum i cs olds
   \<and> match_old tonum ch i olds = spec_match tonum ch i olds
   \<and> (\<forall>c ov. (c, Some ov) \<in> set (fst (walk tonum i cs olds)) \<longrightarrow>
         same_key_type tonum c ov \<and> (flat_key c = KNone \<longrightarrow> v_key ov = KNone))"
  using spec_walk_same [of _ _ tonum i cs olds] unkeyed_match [of tonum]
  by (auto simp: walk_spec_walk match_old_spec)

theorem diffChildren_matching_witness:
  "walk no_tonum 0 (toChildArray news_c1) olds_c1
     = ([(FSame (keyed ''div'' ''b''), Some (keyed ''div'' ''b'')),
         (FSame (keyed ''div'' ''a''), Some (keyed ''div'' ''a'')),
         (FSame (keyed ''span'' ''c''), None),
         (FSame (unkeyed ''p''), Some (unkeyed ''p'')),
         (FText (JStr ''text''), None)],
        [Taken, Taken, Taken, Taken])
   \<and> spec_walk no_tonum 0 (toChildArray news_c1) olds_c1
       = walk no_tonum 0 (toChildArray news_c1) olds_c1
   \<and> same_key_type no_tonum (FSame (unkeyed ''p'')) (unkeyed ''p'')
   \<and> flat_key (FSame (unkeyed ''p'')) = KNone \<and> v_key (unkeyed ''p'') = KNone"
proof -
  have w: "walk no_tonum 0 (toChildArray news_c1) olds_c1
     = ([(FSame (keyed ''div'' ''b''), Some (keyed ''div'' ''b'')),
         (FSame (keyed ''div'' ''a''), Some (keyed ''div'' ''a'')),
         (FSame (keyed ''span'' ''c''), None),
         (FSame (unkeyed ''p''), Some (unkeyed ''p'')),
         (FText (JStr ''text''), None)],
        [Taken, Taken, Taken, Taken])"
    by (simp add: eval_c1)
  show ?thesis
    using diffChildren_matching [of no_tonum 0 "toChildArray news_c1" olds_c1]
    by (simp add: w) (simp add: unkeyed_def vnode0_def)
qed

section \<open>Properties of \<open>diff\<close>\<close>

subsection \<open>C10: objects that \<open>createVNode\<close> did not make\<close>

text \<open>
  \<open>createVNode\<close> leaves the \<open>constructor\<close> field \<open>undefined\<close>. When the new node has a
  \<open>constructor\<close>, \<open>diff\<close> returns \<open>null\<close> at once: the world and the \<open>commitQueue\<close> are as
  before, it invoked nothing and issued no host call.
\<close>

lemma createVNode_constructor: "\<not> v_ctor (createVNode self ty props k original)"
  by (simp add: createVNode_def)

lemma diff_constructor_guard:
  "v_ctor (vnodes w nv) \<Longrightarrow>
     diff P anc parentDom nv ov excess cq w =
       \<lparr>o_state = \<lparr>d_world = w, d_events = [], d_hostops = [], d_commit = cq\<rparr>,
        o_result = Inr None\<rparr>"
  by (simp add: diff_def)

text \<open>
  C10 (the code departs from the claim). The claim ends: an object that \<open>createVNode\<close> did
  not make is never mounted; the comment on the guard says that it is there to prevent
  the injection of parsed JSON. Handed to \<open>diff\<close> itself, the object \<open>json_c10\<close> is turned
  away. Given as a child, it carries a \<open>_dom\<close>, so \<open>toChildArray\<close> takes it for a node in use
  and copies its type, props and key into a node of \<open>createVNode\<close> without looking at its
  \<open>constructor\<close>; \<open>diff\<close> receives the copy, which passes the guard, and has
  \<open>diffElementNodes\<close> make a host element for it, which it returns to \<open>diffChildren\<close> for
  insertion. (Before it calls \<open>diff\<close>, the callback of \<open>diffChildren\<close> sets \<open>_parent\<close> and
  \<open>_depth\<close> of the copy, which \<open>diff\<close> does not read for a host node.)
\<close>

theorem json_child_is_cloned_and_mounted:
  "v_ctor json_c10
   \<and> diff procs0 [] (Some 0) 0 None None [] world_c10
       = \<lparr>o_state = \<lparr>d_world = world_c10, d_events = [], d_hostops = [], d_commit = []\<rparr>,
          o_result = Inr None\<rparr>
   \<and> toChildArray (CNode json_c10) = [FClone json_c10]
   \<and> callback_node 5 (FClone json_c10) = Some clone_c10
   \<and> \<not> v_ctor clone_c10 \<and> v_type clone_c10 = TTag ''div'' \<and> v_props clone_c10 = JRef 8
   \<and> vnodes world_clone 5 = clone_c10
   \<and> d_events (o_state (diff procs0 [] (Some 0) 5 None None [] world_clone))
       = [EvDiffElementNodes 5]
   \<and> d_hostops (o_state (diff procs0 [] (Some 0) 5 None None [] world_clone))
       = [CreateElement ''div'']
   \<and> o_result (diff procs0 [] (Some 0) 5 None None [] world_clone) = Inr (Some 7)"
proof -
  have j: "v_ctor json_c10" "toChildArray (CNode json_c10) = [FClone json_c10]"
    "callback_node 5 (FClone json_c10) = Some clone_c10"
    by (simp_all add: json_c10_def clone_c10_def callback_node_def vnode0_def)
  have g: "diff procs0 [] (Some 0) 0 None None [] world_c10
       = \<lparr>o_state = \<lparr>d_world = world_c10, d_events = [], d_hostops = [], d_commit = []\<rparr>,
          o_result = Inr None\<rparr>"
    by (simp add: diff_def world_c10_def json_c10_def world0_def)
  have c: "\<not> v_ctor clone_c10" "v_type clone_c10 = TTag ''div''" "v_props clone_c10 = JRef 8"
    "vnodes world_clone 5 = clone_c10"
    by (simp_all add: clone_c10_def createVNode_def world_clone_def)
  have d: "d_events (o_state (diff procs0 [] (Some 0) 5 None None [] world_clone))
       = [EvDiffElementNodes 5]"
    "d_hostops (o_state (diff procs0 [] (Some 0) 5 None None [] world_clone))
       = [CreateElement ''div'']"
    "o_result (diff procs0 [] (Some 0) 5 None None [] world_clone) = Inr (Some 7)"
    by (simp_all add: diff_def diff_body_def seq_def skip_def on_world_def options_diffed_def
        same_stamp_def old_original_def upd_vnode_def procs0_def world_clone_def clone_c10_def
        createVNode_def world0_def Let_def)
  from j g c d show ?thesis by simp
qed

subsection \<open>C5: a host node with the stamp of its old node\<close>

text \<open>
  C5. Let the new node be a real virtual node whose type is not a function, let there be
  no excess host children, and let its stamp be identical to the old node's (in the world
  \<open>w1\<close> that the \<open>options._diff\<close> hook leaves, which is the world of the call when no hook
  is installed). Then \<open>diff\<close> issues no host call and leaves the \<open>commitQueue\<close> alone, it
  invokes nothing but that hook, it returns the old node's \<open>_dom\<close>, and all it does to the
  world is to copy the old node's \<open>_children\<close> and \<open>_dom\<close> onto the new node (for a node
  without an instance, as host nodes are, the \<open>options.diffed\<close> hook does nothing).
\<close>

theorem diff_same_stamp:
  fixes w :: "'u world"
  assumes ctor: "\<not> v_ctor (vnodes w nv)"
    and host: "\<forall>f. v_type (vnodes w nv) \<noteq> TFun f"
    and hook: "(case opt_diff P of Some h \<Rightarrow> h nv w | None \<Rightarrow> (w, None)) = (w1, None)"
    and excess: "excess = None"
    and stamp: "same_stamp w1 nv ov"
  shows "d_hostops (o_state (diff P anc parentDom nv ov excess cq w)) = []
       \<and> d_commit (o_state (diff P anc parentDom nv ov excess cq w)) = cq
       \<and> o_result (diff P anc parentDom nv ov excess cq w) = Inr (old_dom w1 ov)
       \<and> d_world (o_state (diff P anc parentDom nv ov excess cq w)) =
           options_diffed nv (upd_vnode nv (\<lambda>x. x\<lparr>v_children := old_children w1 ov,
                                                  v_dom := old_dom w1 ov\<rparr>) w1)
       \<and> (v_component (vnodes w1 nv) = None \<longrightarrow>
            d_world (o_state (diff P anc parentDom nv ov excess cq w)) =
              upd_vnode nv (\<lambda>x. x\<lparr>v_children := old_children w1 ov, v_dom := old_dom w1 ov\<rparr>) w1)
       \<and> (\<forall>e \<in> set (d_events (o_state (diff P anc parentDom nv ov excess cq w))). e = EvDiffHook nv)"
proof -
  let ?s0 = "\<lparr>d_world = w, d_events = [], d_hostops = [], d_commit = cq\<rparr>"
  let ?w2 = "upd_vnode nv (\<lambda>x. x\<lparr>v_children := old_children w1 ov, v_dom := old_dom w1 ov\<rparr>) w1"
  obtain s1 where s1: "(case opt_diff P of Some h \<Rightarrow> run_user (EvDiffHook nv) (h nv) ?s0 | None \<Rightarrow> skip ?s0) = (s1, None)"
    and w1: "d_world s1 = w1" and h1: "d_hostops s1 = []" and c1: "d_commit s1 = cq"
    and e1: "\<forall>e \<in> set (d_events s1). e = EvDiffHook nv"
    using hook by (cases "opt_diff P") (auto simp: run_user_def skip_def split: prod.splits)
  have body: "diff_body P (v_type (vnodes w nv)) parentDom nv ov excess s1 =
      (s1\<lparr>d_world := options_diffed nv ?w2\<rparr>, None)"
    using host excess stamp w1
    by (cases "v_type (vnodes w nv)") (simp_all add: diff_body_def seq_def on_world_def)
  have vd: "v_dom (vnodes (options_diffed nv ?w2) nv) = old_dom w1 ov"
    by (simp add: options_diffed_def upd_vnode_def Let_def split: option.splits)
  have d: "diff P anc parentDom nv ov excess cq w =
      \<lparr>o_state = s1\<lparr>d_world := options_diffed nv ?w2\<rparr>, o_result = Inr (old_dom w1 ov)\<rparr>"
    using ctor s1 body vd by (simp add: diff_def Let_def)
  have nc: "options_diffed nv ?w2 = ?w2" if "v_component (vnodes w1 nv) = None"
    using that by (simp add: options_diffed_def upd_vnode_def)
  from d h1 c1 e1 nc show ?thesis by simp
qed

theorem diff_same_stamp_witness: "d_hostops (o_state (diff procs0 [] (Some 0) 2 (Some 1) None [] world_c5)) = []
   \<and> o_result (diff procs0 [] (Some 0) 2 (Some 1) None [] world_c5) = Inr (Some 3)"
  using diff_same_stamp [of world_c5 2 procs0 world_c5 None "Some 1" "[]" "Some 0" "[]"]
  by (simp add: world_c5_def world0_def vnode0_def procs0_def same_stamp_def old_original_def old_dom_def)

subsection \<open>C4: skipping the update of an instance\<close>

lemma seq_None:
  "seq f g s = (s', None) \<Longrightarrow> \<exists>s1. f s = (s1, None) \<and> g s1 = (s', None)"
  by (auto simp: seq_def split: prod.splits option.splits)

lemma fold_reparent_comps [simp]:
  "comps (fold (\<lambda>k. upd_vnode k f) ks w) = comps w"
  by (induction ks arbitrary: w) (simp_all add: upd_vnode_def)

lemma fold_reparent_vnode:
  "v_dom (vnodes (fold (\<lambda>k. upd_vnode k (\<lambda>x. x\<lparr>v_parent := p\<rparr>)) ks w) v) = v_dom (vnodes w v)
 \<and> v_children (vnodes (fold (\<lambda>k. upd_vnode k (\<lambda>x. x\<lparr>v_parent := p\<rparr>)) ks w) v) = v_children (vnodes w v)"
  by (induction ks arbitrary: w) (simp_all add: upd_vnode_def)

lemma resolve_existing:
  assumes "old_component (d_world s) ov = Some c"
  shows "\<exists>s1 cpe. resolve_instance P nv ov newProps s = (s1, Inr (c, False, cpe))
      \<and> d_events s1 = d_events s \<and> d_hostops s1 = d_hostops s \<and> d_commit s1 = d_commit s"
  using assms by (simp add: resolve_instance_def Let_def)

lemma derive_state_trace:
  assumes "derive_state m c newProps s = (s', r)"
  shows "set (d_events s') \<subseteq> set (d_events s) \<union> {EvGetDerivedStateFromProps c}
       \<and> d_hostops s' = d_hostops s \<and> d_commit s' = d_commit s"
  using assms
  by (auto simp: derive_state_def Let_def split: option.splits sum.splits upd.splits prod.splits if_splits)

lemma will_receive_trace:
  assumes "will_receive m c newProps oldProps s = (s', r)"
  shows "set (d_events s') \<subseteq> set (d_events s) \<union> {EvWillReceiveProps c}
       \<and> d_hostops s' = d_hostops s \<and> d_commit s' = d_commit s"
  using assms
  by (auto simp: will_receive_def run_user_def skip_def split: option.splits prod.splits if_splits)

lemma prelude_trace:
  assumes ex: "old_component (d_world s) ov = Some c"
    and pre: "update_prelude P nv ov c s = (s3, r)"
  shows "set (d_events s3) \<subseteq> set (d_events s) \<union> {EvGetDerivedStateFromProps c, EvWillReceiveProps c}
       \<and> d_hostops s3 = d_hostops s \<and> d_commit s3 = d_commit s"
proof -
  let ?np = "v_props (vnodes (d_world s) nv)"
  from resolve_existing [OF ex, of P nv ?np] obtain s1 cpe where
    r: "resolve_instance P nv ov ?np s = (s1, Inr (c, False, cpe))"
    and t1: "d_events s1 = d_events s" "d_hostops s1 = d_hostops s" "d_commit s1 = d_commit s"
    by blast
  obtain s2 r2 where d: "derive_state (methods_of P c) c ?np s1 = (s2, r2)"
    by (cases "derive_state (methods_of P c) c ?np s1")
  note t2 = derive_state_trace [OF d]
  show ?thesis
  proof (cases r2)
    case (Some e)
    with pre r d have "s3 = s2" by (simp add: update_prelude_def)
    with t1 t2 show ?thesis by auto
  next
    case None
    with pre r d have "will_receive (methods_of P c) c ?np (c_props (comps (d_world s2) c)) s2 = (s3, r)"
      by (simp add: update_prelude_def)
    from will_receive_trace [OF this] t1 t2 show ?thesis by auto
  qed
qed

lemma resolve_instance_marks:
  assumes "old_component (d_world s) ov = Some c"
    and "resolve_instance P nv ov newProps s = (s1, r)"
  shows "c_processingException (comps (d_world s1) c) = c_pendingError (comps (d_world s) c)"
  using assms by (auto simp: resolve_instance_def Let_def upd_comp_def upd_vnode_def)

lemma diff_component_existing:
  assumes ex: "old_component (d_world s) ov = Some c"
    and pre: "update_prelude P nv ov c s = (s3, None)"
  shows "diff_component P parentDom nv ov excess s =
     (case update_gate (methods_of P c) c nv ov (v_props (vnodes (d_world s) nv)) s3 of
        (s4, Inl e) \<Rightarrow> (s4, Some e)
      | (s4, Inr True) \<Rightarrow> bail_out c nv ov (v_props (vnodes (d_world s) nv)) s4
      | (s4, Inr False) \<Rightarrow>
          seq (will_update (methods_of P c) c (v_props (vnodes (d_world s) nv)))
              (render_tail P (methods_of P c) parentDom nv ov excess c False
                 (c_pendingError (comps (d_world s) c)) (v_props (vnodes (d_world s) nv))) s4)"
  using ex pre
  by (auto simp: diff_component_def update_prelude_def resolve_instance_def Let_def
      split: prod.splits option.splits sum.splits)

lemma strict_eq_false [simp]: "strict_eq v (JBool False) \<longleftrightarrow> v = JBool False"
  by (cases v) simp_all

lemma update_gate_eval:
  assumes "\<forall>f e. shouldComponentUpdate m = Some f \<longrightarrow> \<not> c_force (comps (d_world s3) c)
             \<longrightarrow> f newProps (d_world s3) \<noteq> Inl e"
  shows "\<exists>s4. update_gate m c nv ov newProps s3 =
           (s4, Inr ((\<not> c_force (comps (d_world s3) c)
                        \<and> (\<exists>f. shouldComponentUpdate m = Some f
                               \<and> f newProps (d_world s3) = Inr (JBool False)))
                    \<or> (same_stamp (d_world s3) nv ov
                        \<and> \<not> c_processingException (comps (d_world s3) c))))
         \<and> d_world s4 = d_world s3 \<and> d_hostops s4 = d_hostops s3 \<and> d_commit s4 = d_commit s3
         \<and> set (d_events s4) \<subseteq> set (d_events s3) \<union> {EvShouldUpdate c}"
proof (cases "shouldComponentUpdate m")
  case None
  then show ?thesis by (auto simp: update_gate_def Let_def)
next
  case (Some f)
  show ?thesis
  proof (cases "c_force (comps (d_world s3) c)")
    case True
    with Some show ?thesis by (auto simp: update_gate_def Let_def)
  next
    case False
    with Some assms obtain v where "f newProps (d_world s3) = Inr v"
      by (cases "f newProps (d_world s3)") auto
    with Some False show ?thesis by (auto simp: update_gate_def Let_def)
  qed
qed

lemma reparent_frame:
  "comps (reparent nv ks w) = comps w"
  "v_dom (vnodes (reparent nv ks w) v) = v_dom (vnodes w v)"
  "v_children (vnodes (reparent nv ks w) v) = v_children (vnodes w v)"
  by (simp_all add: reparent_def fold_reparent_vnode)

lemma bail_out_effect:
  assumes "bail_out c nv ov newProps s4 = (s', r)"
  shows "d_events s' = d_events s4 \<and> d_hostops s' = d_hostops s4
       \<and> c_props (comps (d_world s') c) = newProps
       \<and> c_state (comps (d_world s') c) = c_nextState (comps (d_world s4) c)
       \<and> v_dom (vnodes (d_world s') nv) = old_dom (d_world s4) ov
       \<and> v_children (vnodes (d_world s') nv) = old_children (d_world s4) ov
       \<and> (r = None \<longleftrightarrow> old_children (d_world s4) ov \<noteq> None)"
  using assms
  by (auto simp: bail_out_def Let_def reparent_frame upd_comp_def upd_vnode_def split: option.splits)

lemma run_user_events:
  "run_user ev f s = (s', r) \<Longrightarrow> set (d_events s) \<subseteq> set (d_events s')"
  by (auto simp: run_user_def split: prod.splits)

lemma will_update_events:
  "will_update m c np s = (s', r) \<Longrightarrow> set (d_events s) \<subseteq> set (d_events s')"
  by (auto simp: will_update_def seq_def skip_def on_world_def push_render_callback_def
      split: option.splits prod.splits if_splits dest!: run_user_events)

lemma render_tail_events:
  assumes "render_tail P m parentDom nv ov excess c isNew cpe np s = (s', None)"
  shows "EvRender c \<in> set (d_events s') \<and> EvDiffChildren nv \<in> set (d_events s')"
proof -
  from assms obtain sc where
    d: "(case call_render P c sc of
           (s1, Inl e) \<Rightarrow> (s1, Some e)
         | (s1, Inr kids) \<Rightarrow>
             seq (case getChildContext m of Some f \<Rightarrow> run_user (EvChildContext c) f | None \<Rightarrow> skip)
            (seq (case getSnapshotBeforeUpdate m of
                    Some f \<Rightarrow> if isNew then skip else run_user (EvSnapshot c) f
                  | None \<Rightarrow> skip)
            (seq (call_diffChildren P parentDom nv ov kids excess)
                 (\<lambda>s2. (let w = d_world s2;
                             w1 = upd_comp c (\<lambda>x. x\<lparr>c_base := v_dom (vnodes w nv)\<rparr>) w;
                             w2 = (if cpe
                                   then upd_comp c (\<lambda>x. x\<lparr>c_pendingError := False,
                                          c_processingException := False\<rparr>) w1
                                   else w1);
                             w3 = upd_comp c (\<lambda>x. x\<lparr>c_force := False\<rparr>) w2
                         in (s2\<lparr>d_world := w3,
                                d_commit := (if c_renderCallbacks (comps w c) \<noteq> []
                                             then d_commit s2 @ [c] else d_commit s2)\<rparr>,
                             None))))) s1) = (s', None)"
    unfolding render_tail_def by (blast dest!: seq_None)
  obtain s1 kids where cr: "call_render P c sc = (s1, Inr kids)"
    using d by (cases "call_render P c sc") (auto split: sum.splits)
  then have e1: "EvRender c \<in> set (d_events s1)"
    by (auto simp: call_render_def split: prod.splits)
  from d cr obtain sx sy sz where
    x: "(case getChildContext m of Some f \<Rightarrow> run_user (EvChildContext c) f | None \<Rightarrow> skip) s1 = (sx, None)"
    and y: "(case getSnapshotBeforeUpdate m of
               Some f \<Rightarrow> if isNew then skip else run_user (EvSnapshot c) f
             | None \<Rightarrow> skip) sx = (sy, None)"
    and z: "call_diffChildren P parentDom nv ov kids excess sy = (sz, None)"
    and w: "d_events s' = d_events sz"
    by (auto dest!: seq_None simp: Let_def)
  from x have "set (d_events s1) \<subseteq> set (d_events sx)"
    by (auto simp: skip_def split: option.splits dest!: run_user_events)
  moreover from y have "set (d_events sx) \<subseteq> set (d_events sy)"
    by (auto simp: skip_def split: option.splits if_splits dest!: run_user_events)
  moreover from z have "d_events sz = d_events sy @ [EvDiffChildren nv]"
    by (auto simp: call_diffChildren_def split: prod.splits)
  ultimately show ?thesis using e1 w by auto
qed

lemma resolve_existing_world:
  assumes "old_component (d_world s) ov = Some c"
    and "resolve_instance P nv ov newProps s = (s1, r)"
  shows "c_processingException (comps (d_world s1) c) = c_pendingError (comps (d_world s) c)
       \<and> (\<forall>v. v_original (vnodes (d_world s1) v) = v_original (vnodes (d_world s) v))"
  using assms by (auto simp: resolve_instance_def Let_def upd_comp_def upd_vnode_def)

lemma derive_state_frame:
  assumes "derive_state m c newProps s = (s', r)"
  shows "vnodes (d_world s') = vnodes (d_world s)
       \<and> c_processingException (comps (d_world s') d) = c_processingException (comps (d_world s) d)"
  using assms
  by (auto simp: derive_state_def Let_def clone_state_def assign_staged_def upd_comp_def
      split: option.splits sum.splits upd.splits prod.splits if_splits jsref.splits)

lemma old_original_cong:
  "(\<forall>v. v_original (vnodes w' v) = v_original (vnodes w v)) \<Longrightarrow> old_original w' ov = old_original w ov"
  by (simp add: old_original_def split: option.splits)

text \<open>
  Line 874 and the test: when \<open>componentWillReceiveProps\<close> leaves the engine's marks alone,
  the instance is processing an exception at the test exactly when it had a pending error
  on entry, and the stamps are those of the entry.
\<close>

lemma prelude_marks:
  fixes s :: "'u dstate"
  assumes ex: "old_component (d_world s) ov = Some c"
    and pre: "update_prelude P nv ov c s = (s3, r)"
    and frame: "\<forall>f w. componentWillReceiveProps (methods_of P c) = Some f \<longrightarrow>
        c_processingException (comps (fst (f (v_props (vnodes (d_world s) nv)) w)) c)
          = c_processingException (comps w c)
      \<and> v_original (vnodes (fst (f (v_props (vnodes (d_world s) nv)) w)) nv)
          = v_original (vnodes w nv)
      \<and> old_original (fst (f (v_props (vnodes (d_world s) nv)) w)) ov = old_original w ov"
  shows "c_processingException (comps (d_world s3) c) = c_pendingError (comps (d_world s) c)
       \<and> same_stamp (d_world s3) nv ov = same_stamp (d_world s) nv ov"
proof -
  let ?np = "v_props (vnodes (d_world s) nv)"
  let ?m = "methods_of P c"
  from resolve_existing [OF ex, of P nv ?np] obtain s1 cpe where
    r: "resolve_instance P nv ov ?np s = (s1, Inr (c, False, cpe))"
    by blast
  note m1 = resolve_existing_world [OF ex r]
  then have o1: "old_original (d_world s1) ov = old_original (d_world s) ov"
    by (simp add: old_original_cong)
  obtain s2 r2 where d: "derive_state ?m c ?np s1 = (s2, r2)"
    by (cases "derive_state ?m c ?np s1")
  note m2 = derive_state_frame [OF d]
  then have o2: "old_original (d_world s2) ov = old_original (d_world s1) ov"
    by (simp add: old_original_cong)
  have at2: "c_processingException (comps (d_world s2) c) = c_pendingError (comps (d_world s) c)
      \<and> v_original (vnodes (d_world s2) nv) = v_original (vnodes (d_world s) nv)
      \<and> old_original (d_world s2) ov = old_original (d_world s) ov"
    using m1 m2 o1 o2 by simp
  show ?thesis
  proof (cases r2)
    case (Some e)
    with pre r d have "s3 = s2" by (simp add: update_prelude_def)
    with at2 show ?thesis by (simp add: same_stamp_def)
  next
    case None
    with pre r d have wr:
      "will_receive ?m c ?np (c_props (comps (d_world s2) c)) s2 = (s3, r)"
      by (simp add: update_prelude_def)
    have "c_processingException (comps (d_world s3) c) = c_processingException (comps (d_world s2) c)
        \<and> v_original (vnodes (d_world s3) nv) = v_original (vnodes (d_world s2) nv)
        \<and> old_original (d_world s3) ov = old_original (d_world s2) ov"
    proof (cases "componentWillReceiveProps ?m")
      case None
      with wr show ?thesis by (simp add: will_receive_def skip_def)
    next
      case (Some f)
      from frame Some have fr:
        "c_processingException (comps (fst (f ?np (d_world s2))) c)
            = c_processingException (comps (d_world s2) c)
         \<and> v_original (vnodes (fst (f ?np (d_world s2))) nv) = v_original (vnodes (d_world s2) nv)
         \<and> old_original (fst (f ?np (d_world s2))) ov = old_original (d_world s2) ov"
        by blast
      from wr Some have "s3 = s2 \<or> d_world s3 = fst (f ?np (d_world s2))"
        by (auto simp: will_receive_def skip_def run_user_def split: if_splits prod.splits)
      with fr show ?thesis by auto
    qed
    with at2 show ?thesis by (simp add: same_stamp_def)
  qed
qed

text \<open>
  C4. Let \<open>diff\<close> find an instance \<open>c\<close> on the old node, let the steps before the test
  (taking over the instance, \<open>getDerivedStateFromProps\<close>, \<open>componentWillReceiveProps\<close>) not
  throw and lead to the state \<open>s3\<close>, let \<open>componentWillReceiveProps\<close> leave the engine's
  marks alone (\<open>_processingException\<close> of the instance and the stamps of the two nodes), and
  let \<open>shouldComponentUpdate\<close>, where it is consulted, return. Call the update vetoed when
  no forced update was requested (\<open>_force\<close>), \<open>shouldComponentUpdate\<close> is declared and it
  returns \<open>false\<close>; call the nodes identical when, on entry to \<open>diff\<close>, the stamp of the new
  node is identical to the old node's and the instance has no pending error
  (\<open>_pendingError\<close>). If the update is vetoed or the nodes are identical, neither \<open>render\<close>
  nor \<open>diffChildren\<close> is invoked and no host call is issued, the new node gets the old
  node's \<open>_dom\<close> and \<open>_children\<close>, and the instance's props and state are the new props and
  the staged next state. Otherwise, a \<open>diff\<close> that does not throw has invoked \<open>render\<close> and
  \<open>diffChildren\<close>; so it has, in particular, for an instance with a pending error whose
  update is not vetoed.
\<close>

theorem diff_update_bail_out:
  fixes s :: "'u dstate" and nv :: vid and c :: cid and P :: "'u procs" and s3 :: "'u dstate"
  defines "newProps \<equiv> v_props (vnodes (d_world s) nv)"
  assumes existing: "old_component (d_world s) ov = Some c"
    and fresh: "d_events s = []"
    and pre: "update_prelude P nv ov c s = (s3, None)"
    and frame: "\<forall>f w. componentWillReceiveProps (methods_of P c) = Some f \<longrightarrow>
        c_processingException (comps (fst (f newProps w)) c) = c_processingException (comps w c)
      \<and> v_original (vnodes (fst (f newProps w)) nv) = v_original (vnodes w nv)
      \<and> old_original (fst (f newProps w)) ov = old_original w ov"
    and scu: "\<forall>f e. shouldComponentUpdate (methods_of P c) = Some f
                \<longrightarrow> \<not> c_force (comps (d_world s3) c) \<longrightarrow> f newProps (d_world s3) \<noteq> Inl e"
    and res: "diff_component P parentDom nv ov excess s = (s', r)"
  defines "vetoed \<equiv> \<not> c_force (comps (d_world s3) c)
                     \<and> (\<exists>f. shouldComponentUpdate (methods_of P c) = Some f
                            \<and> f newProps (d_world s3) = Inr (JBool False))"
    and "identical \<equiv> same_stamp (d_world s) nv ov \<and> \<not> c_pendingError (comps (d_world s) c)"
  shows "(vetoed \<or> identical \<longrightarrow>
            EvRender c \<notin> set (d_events s') \<and> EvDiffChildren nv \<notin> set (d_events s')
          \<and> d_hostops s' = d_hostops s
          \<and> v_dom (vnodes (d_world s') nv) = old_dom (d_world s3) ov
          \<and> v_children (vnodes (d_world s') nv) = old_children (d_world s3) ov
          \<and> c_props (comps (d_world s') c) = newProps
          \<and> c_state (comps (d_world s') c) = c_nextState (comps (d_world s3) c))
       \<and> (\<not> (vetoed \<or> identical) \<longrightarrow> r = None \<longrightarrow>
            EvRender c \<in> set (d_events s') \<and> EvDiffChildren nv \<in> set (d_events s'))"
proof -
  let ?m = "methods_of P c"
  from prelude_marks [OF existing pre frame [unfolded newProps_def]]
  have marks: "(same_stamp (d_world s3) nv ov \<and> \<not> c_processingException (comps (d_world s3) c))
      = identical"
    by (simp add: identical_def)
  from update_gate_eval [OF scu, of nv ov] obtain s4 where
    gate: "update_gate ?m c nv ov newProps s3 = (s4, Inr (vetoed \<or> identical))"
    and w4: "d_world s4 = d_world s3" and h4: "d_hostops s4 = d_hostops s3"
    and e4: "set (d_events s4) \<subseteq> set (d_events s3) \<union> {EvShouldUpdate c}"
    unfolding vetoed_def marks [symmetric] by blast
  from prelude_trace [OF existing pre] fresh have
    e3: "set (d_events s3) \<subseteq> {EvGetDerivedStateFromProps c, EvWillReceiveProps c}"
    and h3: "d_hostops s3 = d_hostops s"
    by auto
  note dc = diff_component_existing [OF existing pre, of parentDom excess, folded newProps_def]
  show ?thesis
  proof (cases "vetoed \<or> identical")
    case True
    with dc gate res have "bail_out c nv ov newProps s4 = (s', r)" by simp
    from bail_out_effect [OF this] e3 e4 h3 h4 w4 True show ?thesis by auto
  next
    case False
    with dc gate res have run: "seq (will_update ?m c newProps)
        (render_tail P ?m parentDom nv ov excess c False
           (c_pendingError (comps (d_world s) c)) newProps) s4 = (s', r)"
      by simp
    have "EvRender c \<in> set (d_events s') \<and> EvDiffChildren nv \<in> set (d_events s')" if "r = None"
    proof -
      from run that obtain s5 where
        "render_tail P ?m parentDom nv ov excess c False
           (c_pendingError (comps (d_world s) c)) newProps s5 = (s', None)"
        by (blast dest!: seq_None)
      then show ?thesis by (rule render_tail_events)
    qed
    with False show ?thesis by simp
  qed
qed

lemmas eval_c4 = procs_c4_def procs0_def world_c4_def start_c4_def failed_c4_def world0_def
  component0_def vnode0_def no_methods_def update_prelude_def resolve_instance_def
  derive_state_def will_receive_def old_component_def upd_comp_def upd_vnode_def skip_def
  Let_def diff_component_def update_gate_def bail_out_def same_stamp_def old_original_def
  old_dom_def old_children_def reparent_def map_filter_simps will_update_def seq_def
  render_tail_def on_world_def render_hook_def call_render_def call_diffChildren_def
  run_user_def nullish_def loose_eq_def

theorem diff_update_bail_out_witness:
  "old_component (d_world start_c4) (Some 1) = Some 0
   \<and> snd (update_prelude procs_c4 2 (Some 1) 0 start_c4) = None
   \<and> EvRender 0 \<notin> set (d_events (fst (diff_component procs_c4 (Some 0) 2 (Some 1) None start_c4)))
   \<and> c_state (comps (d_world (fst (diff_component procs_c4 (Some 0) 2 (Some 1) None start_c4))) 0) = Ref 1
   \<and> c_props (comps (d_world (fst (diff_component procs_c4 (Some 0) 2 (Some 1) None start_c4))) 0) = JRef 5
   \<and> v_dom (vnodes (d_world (fst (diff_component procs_c4 (Some 0) 2 (Some 1) None start_c4))) 2) = Some 3
   \<and> snd (update_prelude procs0 2 (Some 1) 0 start_c4) = None
   \<and> snd (diff_component procs0 (Some 0) 2 (Some 1) None start_c4) = None
   \<and> EvRender 0 \<in> set (d_events (fst (diff_component procs0 (Some 0) 2 (Some 1) None start_c4)))
   \<and> same_stamp (d_world start_c4) 3 (Some 1) \<and> \<not> c_pendingError (comps (d_world start_c4) 0)
   \<and> snd (update_prelude procs0 3 (Some 1) 0 start_c4) = None
   \<and> EvRender 0 \<notin> set (d_events (fst (diff_component procs0 (Some 0) 3 (Some 1) None start_c4)))
   \<and> v_dom (vnodes (d_world (fst (diff_component procs0 (Some 0) 3 (Some 1) None start_c4))) 3) = Some 3
   \<and> c_props (comps (d_world (fst (diff_component procs0 (Some 0) 3 (Some 1) None start_c4))) 0) = JRef 6
   \<and> same_stamp (d_world failed_c4) 3 (Some 1) \<and> c_pendingError (comps (d_world failed_c4) 0)
   \<and> snd (update_prelude procs0 3 (Some 1) 0 failed_c4) = None
   \<and> snd (diff_component procs0 (Some 0) 3 (Some 1) None failed_c4) = None
   \<and> EvRender 0 \<in> set (d_events (fst (diff_component procs0 (Some 0) 3 (Some 1) None failed_c4)))"
proof -
  let ?pa = "update_prelude procs_c4 2 (Some 1) 0 start_c4"
  let ?da = "diff_component procs_c4 (Some 0) 2 (Some 1) None start_c4"
  let ?pn = "update_prelude procs0 2 (Some 1) 0 start_c4"
  let ?dn = "diff_component procs0 (Some 0) 2 (Some 1) None start_c4"
  let ?pb = "update_prelude procs0 3 (Some 1) 0 start_c4"
  let ?db = "diff_component procs0 (Some 0) 3 (Some 1) None start_c4"
  let ?pf = "update_prelude procs0 3 (Some 1) 0 failed_c4"
  let ?df = "diff_component procs0 (Some 0) 3 (Some 1) None failed_c4"
  have ex: "old_component (d_world start_c4) (Some 1) = Some 0"
    and fr: "d_events start_c4 = []"
    and exf: "old_component (d_world failed_c4) (Some 1) = Some 0"
    and frf: "d_events failed_c4 = []"
    by (simp_all add: eval_c4)
  have spa: "snd ?pa = None" and spn: "snd ?pn = None" and spb: "snd ?pb = None"
    and spf: "snd ?pf = None"
    by (simp_all add: eval_c4)
  have pa: "?pa = (fst ?pa, None)" using spa by (cases ?pa) simp
  have pn: "?pn = (fst ?pn, None)" using spn by (cases ?pn) simp
  have pb: "?pb = (fst ?pb, None)" using spb by (cases ?pb) simp
  have pf: "?pf = (fst ?pf, None)" using spf by (cases ?pf) simp
  have da: "?da = (fst ?da, snd ?da)" and dn: "?dn = (fst ?dn, snd ?dn)"
    and db: "?db = (fst ?db, snd ?db)" and df: "?df = (fst ?df, snd ?df)"
    by simp_all
  have nowrp: "componentWillReceiveProps (methods_of procs_c4 0) = None"
    "componentWillReceiveProps (methods_of procs0 0) = None"
    by (simp_all add: procs_c4_def procs0_def no_methods_def)
  have scua: "\<forall>f e. shouldComponentUpdate (methods_of procs_c4 0) = Some f
      \<longrightarrow> \<not> c_force (comps (d_world (fst ?pa)) 0)
      \<longrightarrow> f (v_props (vnodes (d_world start_c4) 2)) (d_world (fst ?pa)) \<noteq> Inl e"
    by (simp add: procs_c4_def procs0_def no_methods_def)
  have nos: "shouldComponentUpdate (methods_of procs0 0) = None"
    by (simp add: procs0_def no_methods_def)
  have veto: "\<not> c_force (comps (d_world (fst ?pa)) 0)"
    "shouldComponentUpdate (methods_of procs_c4 0) = Some (\<lambda>p w. Inr (JBool False))"
    by (simp_all add: eval_c4)
  have stamps: "\<not> same_stamp (d_world start_c4) 2 (Some 1)"
    "same_stamp (d_world start_c4) 3 (Some 1)" "same_stamp (d_world failed_c4) 3 (Some 1)"
    "\<not> c_pendingError (comps (d_world start_c4) 0)" "c_pendingError (comps (d_world failed_c4) 0)"
    by (simp_all add: eval_c4)
  have rets: "snd ?dn = None" "snd ?df = None"
    by (simp_all add: eval_c4)
  have vals: "c_nextState (comps (d_world (fst ?pa)) 0) = Ref 1"
    "v_props (vnodes (d_world start_c4) 2) = JRef 5"
    "v_props (vnodes (d_world start_c4) 3) = JRef 6"
    "old_dom (d_world (fst ?pa)) (Some 1) = Some 3"
    "old_dom (d_world (fst ?pb)) (Some 1) = Some 3"
    by (simp_all add: eval_c4)
  note ta = diff_update_bail_out [OF ex fr pa _ scua da]
    and tn = diff_update_bail_out [OF ex fr pn _ _ dn]
    and tb = diff_update_bail_out [OF ex fr pb _ _ db]
    and tf = diff_update_bail_out [OF exf frf pf _ _ df]
  show ?thesis
    using ta tn tb tf ex spa spn spb spf nowrp nos veto stamps rets vals
    by simp
qed

end
